theory Spec2Isabelle
  imports Main "HOL-Library.Word"
begin

unbundle bit_operations_syntax

section \<open>Identity value: package sha (git/sha/sha.go)\<close>

subsection \<open>Go library functions used by the package\<close>

type_synonym byte = "8 word"

text \<open>
  Go strings are byte sequences; \<open>string\<close> (a \<open>char list\<close>) is used for them, one
  \<open>char\<close> per byte.
\<close>

datatype hex_error = ErrLength | InvalidByteError char

text \<open>
  \<open>encoding/hex\<close>: \<open>reverseHexTable\<close> gives a digit, a lower case or an upper case
  letter \<open>a\<close>..\<open>f\<close> its value; every other byte is invalid (\<open>0xff\<close> in the Go table).
\<close>

definition reverseHexTable :: "(char \<times> byte) list" where
  "reverseHexTable =
     [(CHR ''0'', 0), (CHR ''1'', 1), (CHR ''2'', 2), (CHR ''3'', 3), (CHR ''4'', 4),
      (CHR ''5'', 5), (CHR ''6'', 6), (CHR ''7'', 7), (CHR ''8'', 8), (CHR ''9'', 9),
      (CHR ''a'', 10), (CHR ''b'', 11), (CHR ''c'', 12), (CHR ''d'', 13), (CHR ''e'', 14),
      (CHR ''f'', 15),
      (CHR ''A'', 10), (CHR ''B'', 11), (CHR ''C'', 12), (CHR ''D'', 13), (CHR ''E'', 14),
      (CHR ''F'', 15)]"

definition fromHexChar :: "char \<Rightarrow> byte option" where
  "fromHexChar c = map_of reverseHexTable c"

text \<open>
  \<open>hex.DecodeString\<close>: two characters make a byte; the first invalid character is
  reported; an odd length is \<open>ErrLength\<close>, reported after the last character has been
  checked.
\<close>

fun hex_DecodeString :: "string \<Rightarrow> hex_error + byte list" where
  "hex_DecodeString [] = Inr []"
| "hex_DecodeString [p] =
     (case fromHexChar p of None \<Rightarrow> Inl (InvalidByteError p) | Some a \<Rightarrow> Inl ErrLength)"
| "hex_DecodeString (p # q # rest) =
     (case fromHexChar p of
        None \<Rightarrow> Inl (InvalidByteError p)
      | Some a \<Rightarrow>
          (case fromHexChar q of
             None \<Rightarrow> Inl (InvalidByteError q)
           | Some b \<Rightarrow>
               (case hex_DecodeString rest of
                  Inl e \<Rightarrow> Inl e
                | Inr bs \<Rightarrow> Inr ((push_bit 4 a OR b) # bs))))"

definition hextable :: string where
  "hextable = ''0123456789abcdef''"

text \<open>\<open>hex.EncodeToString\<close>: the high nibble, then the low nibble, in lower case.\<close>

fun hex_EncodeToString :: "byte list \<Rightarrow> string" where
  "hex_EncodeToString [] = []"
| "hex_EncodeToString (v # vs) =
     hextable ! unat (drop_bit 4 v) # hextable ! unat (v AND 15) # hex_EncodeToString vs"

text \<open>
  \<open>strings.TrimSpace\<close> on its ASCII path: leading and trailing tab, line feed, vertical
  tab, form feed, carriage return and space are removed. Go also removes the Unicode
  white space that is encoded in several bytes; that is not modelled (hex text and the
  output of the store are ASCII).
\<close>

definition asciiSpace :: "char \<Rightarrow> bool" where
  "asciiSpace c = ((of_char c :: nat) \<in> {9, 10, 11, 12, 13, 32})"

definition TrimSpace :: "string \<Rightarrow> string" where
  "TrimSpace s = rev (dropWhile asciiSpace (rev (dropWhile asciiSpace s)))"

subsection \<open>The type SHA and its methods\<close>

text \<open>\<open>type SHA struct { bytes []byte; str string }\<close>\<close>

record SHA =
  bytes :: "byte list"
  str :: string

text \<open>The values a Go \<open>any\<close> can hold at the type switches of \<open>Equal\<close> and \<open>New\<close>.\<close>

datatype any = AnyString string | AnyBytes "byte list" | AnySHA SHA | AnyOther

datatype sha_error = ErrTypeNotSupported | HexError hex_error

definition Nil_hex :: string where
  "Nil_hex = ''0000000000000000000000000000000000000000''"

definition EmptyTree :: string where
  "EmptyTree = ''4b825dc642cb6eb9a060e54bf8d69288fbee4904''"

text \<open>
  \<open>String\<close> has a value receiver: the assignment to \<open>s.str\<close> changes the copy only, so
  the method is a pure function of the SHA.
\<close>

definition SHA_String :: "SHA \<Rightarrow> string" where
  "SHA_String s = (if str s = [] then hex_EncodeToString (bytes s) else str s)"

definition IsZero :: "SHA \<Rightarrow> bool" where
  "IsZero s = (length (bytes s) = 0)"

definition Equal :: "SHA \<Rightarrow> any \<Rightarrow> bool" where
  "Equal s val =
     (case val of
        AnyString v \<Rightarrow> v = SHA_String s
      | AnyBytes v \<Rightarrow> v = bytes s
      | AnySHA v \<Rightarrow> bytes v = bytes s
      | AnyOther \<Rightarrow> False)"

definition sha_New :: "any \<Rightarrow> sha_error + SHA" where
  "sha_New arg =
     (case arg of
        AnyString a \<Rightarrow>
          (case hex_DecodeString (TrimSpace a) of
             Inl err \<Rightarrow> Inl (HexError err)
           | Inr b \<Rightarrow> Inr \<lparr>bytes = b, str = []\<rparr>)
      | AnyBytes a \<Rightarrow> Inr \<lparr>bytes = a, str = []\<rparr>
      | _ \<Rightarrow> Inl ErrTypeNotSupported)"

text \<open>\<open>MustNew\<close> drops the error: on failure \<open>New\<close> has returned \<open>SHA{}\<close>.\<close>

definition MustNew :: "string \<Rightarrow> SHA" where
  "MustNew s =
     (case sha_New (AnyString s) of Inl _ \<Rightarrow> \<lparr>bytes = [], str = []\<rparr> | Inr v \<Rightarrow> v)"

text \<open>The canonical hex text of a SHA uses the characters of \<open>hextable\<close> only.\<close>

definition lowerHex :: "char \<Rightarrow> bool" where
  "lowerHex c = (c \<in> set hextable)"

text \<open>
  Modelled from the spec: \<open>ref.go\<close> uses \<open>sha.None\<close>, \<open>sha.Nil\<close> as a SHA value,
  \<open>IsEmpty\<close> and \<open>IsNil\<close>, which the \<open>sha.go\<close> at hand does not declare (it has the hex
  text \<open>Nil\<close> and \<open>IsZero\<close>). The spec: "IsZero/IsEmpty reports absence of bytes (not
  equal to the Nil constant, which has bytes, all zero)"; "Nil (all-zero) and an
  unset/empty value are different states".
\<close>

definition sha_None :: SHA where
  "sha_None = \<lparr>bytes = [], str = []\<rparr>"

definition sha_Nil :: SHA where
  "sha_Nil = MustNew Nil_hex"

definition IsEmpty :: "SHA \<Rightarrow> bool" where
  "IsEmpty s = IsZero s"

definition IsNil :: "SHA \<Rightarrow> bool" where
  "IsNil s = Equal s (AnySHA sha_Nil)"

section \<open>Errors (package errors, git/api/errors.go)\<close>

text \<open>
  Modelled from the spec: the package \<open>github.com/harness/gitness/errors\<close> is not part
  of the sources at hand. The spec's taxonomy is \<open>InvalidArgument\<close>, \<open>NotFound\<close>,
  \<open>Conflict\<close>, \<open>PreconditionFailed\<close> and \<open>Internal\<close>; an error that carries no status
  counts as internal, and the status is read through the \<open>%w\<close> wrappers of
  \<open>fmt.Errorf\<close>. Messages are kept as the format string and its arguments. A read
  through a nil pointer panics; the panic is a value here, \<open>NilPointerPanic\<close>.
\<close>

datatype Status =
    StatusConflict | StatusInternal | StatusInvalidArgument
  | StatusNotFound | StatusPreconditionFailed

text \<open>
  A failure of the command adapter or of the pipe it writes to: the exit code, when the
  process has one, and the text of \<open>Error()\<close>.
\<close>

datatype cmd_error = CmdError (exit_code: "int option") (err_text: string)

datatype error =
    StatusErr Status string "string list"
  | InternalErr error string "string list"
  | PlainErr string "string list"
  | Wrapped string "string list" error
  | FromCmd cmd_error
  | FromSha sha_error
  | NilPointerPanic

fun AsStatus :: "error \<Rightarrow> Status" where
  "AsStatus (StatusErr st _ _) = st"
| "AsStatus (InternalErr _ _ _) = StatusInternal"
| "AsStatus (PlainErr _ _) = StatusInternal"
| "AsStatus (Wrapped _ _ e) = AsStatus e"
| "AsStatus (FromCmd _) = StatusInternal"
| "AsStatus (FromSha _) = StatusInternal"
| "AsStatus NilPointerPanic = StatusInternal"

definition IsNotFound :: "error \<Rightarrow> bool" where
  "IsNotFound err = (AsStatus err = StatusNotFound)"

definition NotFound :: "string \<Rightarrow> string list \<Rightarrow> error" where
  "NotFound format args = StatusErr StatusNotFound format args"

definition InvalidArgument :: "string \<Rightarrow> string list \<Rightarrow> error" where
  "InvalidArgument format args = StatusErr StatusInvalidArgument format args"

definition Conflict :: "string \<Rightarrow> string list \<Rightarrow> error" where
  "Conflict format args = StatusErr StatusConflict format args"

definition PreconditionFailed :: "string \<Rightarrow> string list \<Rightarrow> error" where
  "PreconditionFailed format args = StatusErr StatusPreconditionFailed format args"

definition ErrInvalidPath :: error where
  "ErrInvalidPath = PlainErr ''path is invalid'' []"

definition ErrRepositoryPathEmpty :: error where
  "ErrRepositoryPathEmpty = InvalidArgument ''repository path cannot be empty'' []"

text \<open>\<open>strings.HasPrefix\<close> and \<open>strings.Contains\<close>.\<close>

fun HasPrefix :: "string \<Rightarrow> string \<Rightarrow> bool" where
  "HasPrefix s [] = True"
| "HasPrefix [] (p # ps) = False"
| "HasPrefix (c # cs) (p # ps) = (c = p \<and> HasPrefix cs ps)"

fun Contains :: "string \<Rightarrow> string \<Rightarrow> bool" where
  "Contains [] substr = (substr = [])"
| "Contains (c # cs) substr = (HasPrefix (c # cs) substr \<or> Contains cs substr)"

text \<open>\<open>processGitErrorf\<close> (the warning it logs is not modelled).\<close>

definition processGitErrorf :: "cmd_error \<Rightarrow> string \<Rightarrow> string list \<Rightarrow> error" where
  "processGitErrorf err format args =
     (let fallbackErr = InternalErr (FromCmd err) format args in
      if err_text err = ''no such file or directory'' then NotFound ''repository not found'' []
      else if Contains (err_text err) ''reference already exists''
        then Conflict ''reference already exists'' []
      else fallbackErr)"

section \<open>Reference store (git/api/ref.go)\<close>

subsection \<open>The hook protocol and the store, as seen from the code\<close>

record ReferenceUpdate =
  Ref :: string
  Old :: SHA
  New :: SHA

text \<open>The \<open>Environment\<close> of both inputs is passed empty and is left out.\<close>

record PreReceiveInput =
  RefUpdates :: "ReferenceUpdate list"

record PostReceiveInput =
  PostRefUpdates :: "ReferenceUpdate list"

record Output =
  Messages :: "string list"
  Error :: "string option"

text \<open>
  \<open>command.New(name, ...)\<close>: the flags added with \<open>WithFlag\<close> and the arguments added
  with \<open>WithArg\<close>, each in order, and the directory of \<open>WithDir\<close>.
\<close>

datatype command =
  Command (cmd_name: string) (cmd_flags: "string list") (cmd_args: "string list")
    (cmd_dir: string)

text \<open>
  \<open>Git\<close> is the receiver \<open>g\<close> with what it reaches: the hook client factory
  (\<open>NewClient\<close> fails or gives a client; the client answers \<open>PreReceive\<close> and
  \<open>PostReceive\<close>), and \<open>fault\<close>, the failures of the external command that do not depend
  on the references (a missing directory, an unknown object, I/O): a command with a
  fault fails and changes nothing. \<open>traceGit\<close> only switches logging and is left out.
\<close>

record Git =
  NewClient :: "(string \<rightharpoonup> string) \<Rightarrow> error option"
  PreReceive :: "PreReceiveInput \<Rightarrow> error + Output"
  PostReceive :: "PostReceiveInput \<Rightarrow> error + Output"
  fault :: "command \<Rightarrow> cmd_error option"

datatype event =
    CalledNewClient "string \<rightharpoonup> string"
  | CalledPreReceive PreReceiveInput
  | CalledPostReceive PostReceiveInput
  | Ran command

text \<open>
  The world outside the process: the references of the repository at each path (a ref
  name to the hex object name it holds) and, in order, the calls that were made.
\<close>

record world =
  refs :: "string \<Rightarrow> string \<rightharpoonup> string"
  trace :: "event list"

definition called :: "event \<Rightarrow> world \<Rightarrow> world" where
  "called ev w = w\<lparr>trace := trace w @ [ev]\<rparr>"

text \<open>The calls made on the way from the world \<open>w\<close> to the world \<open>w'\<close>.\<close>

definition calls_since :: "world \<Rightarrow> world \<Rightarrow> event list" where
  "calls_since w w' = drop (length (trace w)) (trace w')"

text \<open>
  Modelled from the spec: the store is the external binary. Section 6 gives the
  commands, \<open>show-ref --verify -s ref\<close> and \<open>update-ref [-d] ref [new] old\<close>; section
  4.3 says that the update is a compare-and-swap ("the update only succeeds if the
  ref's current value still equals oldValue, otherwise it fails"), that a missing ref
  is exit code 128 with "not a valid ref", and that a conflicting create reports
  "reference already exists". An old value of all zeros stands for "no such ref".
\<close>

definition usage_error :: cmd_error where
  "usage_error = CmdError (Some 129) ''usage''"

definition store_show_ref :: "(string \<rightharpoonup> string) \<Rightarrow> string \<Rightarrow> cmd_error + string \<times> (string \<rightharpoonup> string)" where
  "store_show_ref rs ref =
     (case rs ref of
        None \<Rightarrow> Inl (CmdError (Some 128) (''fatal: '' @ ref @ '' - not a valid ref''))
      | Some h \<Rightarrow> Inr (h @ [CHR 0x0A], rs))"

definition store_update_ref ::
  "(string \<rightharpoonup> string) \<Rightarrow> string \<Rightarrow> string \<Rightarrow> string \<Rightarrow>
     cmd_error + string \<times> (string \<rightharpoonup> string)" where
  "store_update_ref rs ref new old =
     (if rs ref = (if old = Nil_hex then None else Some old) then Inr ([], rs(ref \<mapsto> new))
      else if old = Nil_hex
        then Inl (CmdError (Some 128) ''fatal: cannot lock ref: reference already exists'')
      else Inl (CmdError (Some 128) ''fatal: cannot lock ref: unexpected object ID''))"

definition store_delete_ref ::
  "(string \<rightharpoonup> string) \<Rightarrow> string \<Rightarrow> string \<Rightarrow> cmd_error + string \<times> (string \<rightharpoonup> string)" where
  "store_delete_ref rs ref old =
     (if rs ref = Some old then Inr ([], rs(ref := None))
      else Inl (CmdError (Some 128) ''fatal: cannot lock ref: unexpected object ID''))"

definition store_run ::
  "(string \<rightharpoonup> string) \<Rightarrow> string \<Rightarrow> string list \<Rightarrow> string list \<Rightarrow>
     cmd_error + string \<times> (string \<rightharpoonup> string)" where
  "store_run rs name flags args =
     (if name = ''show-ref'' \<and> flags = [''--verify'', ''-s''] then
        (case args of [ref] \<Rightarrow> store_show_ref rs ref | _ \<Rightarrow> Inl usage_error)
      else if name = ''update-ref'' then
        (case (flags, args) of
           ([], [ref, new, old]) \<Rightarrow> store_update_ref rs ref new old
         | ([d, ref], [old]) \<Rightarrow>
             if d = ''-d'' then store_delete_ref rs ref old else Inl usage_error
         | _ \<Rightarrow> Inl usage_error)
      else Inl usage_error)"

text \<open>\<open>cmd.Run\<close>: the standard output on success; the references change on success only.\<close>

definition Run :: "Git \<Rightarrow> world \<Rightarrow> command \<Rightarrow> (cmd_error + string) \<times> world" where
  "Run g w c =
     (let w1 = called (Ran c) w in
      case fault g c of
        Some e \<Rightarrow> (Inl e, w1)
      | None \<Rightarrow>
          (case store_run (refs w1 (cmd_dir c)) (cmd_name c) (cmd_flags c) (cmd_args c) of
             Inl e \<Rightarrow> (Inl e, w1)
           | Inr (out, rs) \<Rightarrow> (Inr out, w1\<lparr>refs := (refs w1)(cmd_dir c := rs)\<rparr>)))"

subsection \<open>GetRef, UpdateRef, updateRefWithHooks\<close>

definition IsExitCode :: "cmd_error \<Rightarrow> int \<Rightarrow> bool" where
  "IsExitCode e code = (exit_code e = Some code)"

definition GetRef :: "Git \<Rightarrow> world \<Rightarrow> string \<Rightarrow> string \<Rightarrow> (error + SHA) \<times> world" where
  "GetRef g w repoPath ref =
     (if repoPath = [] then (Inl ErrRepositoryPathEmpty, w)
      else
        (case Run g w (Command ''show-ref'' [''--verify'', ''-s''] [ref] repoPath) of
           (Inl err, w1) \<Rightarrow>
             if IsExitCode err 128 \<and> Contains (err_text err) ''not a valid ref''
             then (Inl (NotFound ''reference %q not found'' [ref]), w1)
             else (Inl (FromCmd err), w1)
         | (Inr output, w1) \<Rightarrow>
             (case sha_New (AnyString output) of
                Inl e \<Rightarrow> (Inl (FromSha e), w1)
              | Inr v \<Rightarrow> (Inr v, w1))))"

text \<open>The \<open>update-ref\<close> command that \<open>updateRefWithHooks\<close> builds.\<close>

definition updateRefCommand :: "string \<Rightarrow> string \<Rightarrow> SHA \<Rightarrow> SHA \<Rightarrow> command" where
  "updateRefCommand repoPath ref oldValue newValue =
     Command ''update-ref''
       (if IsNil newValue then [''-d'', ref] else [])
       ((if IsNil newValue then [] else [ref, SHA_String newValue]) @ [SHA_String oldValue])
       repoPath"

definition updateRefWithHooks ::
  "Git \<Rightarrow> world \<Rightarrow> (string \<rightharpoonup> string) \<Rightarrow> string \<Rightarrow> string \<Rightarrow> SHA \<Rightarrow> SHA \<Rightarrow>
     error option \<times> world" where
  "updateRefWithHooks g w envVars repoPath ref oldValue newValue =
     (if repoPath = [] then (Some ErrRepositoryPathEmpty, w)
      else if IsEmpty oldValue then (Some (PlainErr ''oldValue can't be empty'' []), w)
      else if IsEmpty newValue then (Some (PlainErr ''newValue can't be empty'' []), w)
      else if IsNil oldValue \<and> IsNil newValue
        then (Some (PlainErr ''provided values cannot be both empty'' []), w)
      else
        let w1 = called (CalledNewClient envVars) w in
        case NewClient g envVars of
          Some err \<Rightarrow> (Some (Wrapped ''failed to create githook client: %w'' [] err), w1)
        | None \<Rightarrow>
            let update = \<lparr>Ref = ref, Old = oldValue, New = newValue\<rparr>;
                pre = \<lparr>RefUpdates = [update]\<rparr>;
                w2 = called (CalledPreReceive pre) w1 in
            case PreReceive g pre of
              Inl err \<Rightarrow> (Some (Wrapped ''pre-receive call failed with: %w'' [] err), w2)
            | Inr out \<Rightarrow>
                (case Error out of
                   Some msg \<Rightarrow> (Some (PlainErr ''pre-receive call returned error: %q'' [msg]), w2)
                 | None \<Rightarrow>
                     (case Run g w2 (updateRefCommand repoPath ref oldValue newValue) of
                        (Inl err, w3) \<Rightarrow>
                          (Some (processGitErrorf err ''update of ref %q from %q to %q failed''
                                   [ref, SHA_String oldValue, SHA_String newValue]), w3)
                      | (Inr _, w3) \<Rightarrow>
                          let post = \<lparr>PostRefUpdates = [update]\<rparr>;
                              w4 = called (CalledPostReceive post) w3 in
                          (case PostReceive g post of
                             Inl err \<Rightarrow>
                               (Some (Wrapped ''post-receive call failed with: %w'' [] err), w4)
                           | Inr out \<Rightarrow>
                               (case Error out of
                                  Some msg \<Rightarrow>
                                    (Some (PlainErr ''post-receive call returned error: %q''
                                             [msg]), w4)
                                | None \<Rightarrow> (None, w4))))))"


section \<open>Reference walker (git/api/ref.go)\<close>

type_synonym GitReferenceField = string

definition GitReferenceFieldRefName :: GitReferenceField where
  "GitReferenceFieldRefName = ''refname''"

definition GitReferenceFieldObjectType :: GitReferenceField where
  "GitReferenceFieldObjectType = ''objecttype''"

definition GitReferenceFieldObjectName :: GitReferenceField where
  "GitReferenceFieldObjectName = ''objectname''"

definition GitReferenceFieldCreatorDate :: GitReferenceField where
  "GitReferenceFieldCreatorDate = ''creatordate''"

definition ParseGitReferenceField :: "string \<Rightarrow> GitReferenceField \<times> error option" where
  "ParseGitReferenceField f =
     (if f = GitReferenceFieldCreatorDate then (GitReferenceFieldCreatorDate, None)
      else if f = GitReferenceFieldRefName then (GitReferenceFieldRefName, None)
      else if f = GitReferenceFieldObjectName then (GitReferenceFieldObjectName, None)
      else if f = GitReferenceFieldObjectType then (GitReferenceFieldObjectType, None)
      else (GitReferenceFieldRefName, Some (PlainErr (''unknown git reference field '%s'' @ [CHR 0x27]) [f])))"

text \<open>\<open>type WalkInstruction int\<close> with its three constants (\<open>iota\<close>).\<close>

type_synonym WalkInstruction = int

definition WalkInstructionStop :: WalkInstruction where
  "WalkInstructionStop = 0"

definition WalkInstructionHandle :: WalkInstruction where
  "WalkInstructionHandle = 1"

definition WalkInstructionSkip :: WalkInstruction where
  "WalkInstructionSkip = 2"

type_synonym WalkReferencesEntry = "GitReferenceField \<rightharpoonup> string"

type_synonym WalkReferencesInstructor = "WalkReferencesEntry \<Rightarrow> WalkInstruction \<times> error option"

type_synonym WalkReferencesHandler = "WalkReferencesEntry \<Rightarrow> error option"

datatype SortOrder = SortOrderDefault | SortOrderAsc | SortOrderDesc

text \<open>\<open>Instructor\<close> is a function value that may be nil; \<open>MaxWalkDistance\<close> is an \<open>int32\<close>.\<close>

record WalkReferencesOptions =
  Patterns :: "string list"
  Fields :: "GitReferenceField list"
  Instructor :: "WalkReferencesInstructor option"
  Sort :: GitReferenceField
  Order :: SortOrder
  MaxWalkDistance :: int

definition MaxInt32 :: int where
  "MaxInt32 = 2147483647"

definition DefaultInstructor :: WalkReferencesInstructor where
  "DefaultInstructor _ = (WalkInstructionHandle, None)"

text \<open>
  Modelled from the spec: \<open>foreachref.Parser\<close> is not part of the sources at hand. The
  spec has a line-oriented parser that reads the command's output incrementally;
  \<open>ref.go\<close> says of \<open>Next\<close>: "nil if end of output reached or an error occurred", and
  reads the error with \<open>Err\<close> after the loop. The parser holds the records still to
  come and the failure, if any, that ends the output after them.
\<close>

record Parser =
  pending :: "(string \<rightharpoonup> string) list"
  failure :: "cmd_error option"
  parse_err :: "cmd_error option"

definition Next :: "Parser \<Rightarrow> (string \<rightharpoonup> string) option \<times> Parser" where
  "Next p =
     (case pending p of
        [] \<Rightarrow> (None, p\<lparr>parse_err := failure p\<rparr>)
      | r # rs \<Rightarrow> (Some r, p\<lparr>pending := rs\<rparr>))"

definition Err :: "Parser \<Rightarrow> cmd_error option" where
  "Err p = parse_err p"

text \<open>
  The calls a walk makes to the two callbacks, in order: the entries given to the
  instructor and the entries given to the handler.
\<close>

record walk_log =
  instructed :: "WalkReferencesEntry list"
  handled :: "WalkReferencesEntry list"

text \<open>How the \<open>for\<close> loop ends: by a \<open>return\<close>, or by leaving the loop.\<close>

datatype loop_exit = Returned error | Left Parser

text \<open>
  The loop of \<open>walkReferenceParser\<close>. \<open>mapRawRef\<close> is not part of the sources at hand and
  is a parameter. The counter \<open>i\<close> stays below \<open>MaxWalkDistance\<close>, an \<open>int32\<close>, so
  \<open>i++\<close> does not overflow. Calling an instructor that is nil panics.
\<close>

function walkReferenceLoop ::
  "((string \<rightharpoonup> string) \<Rightarrow> error + WalkReferencesEntry) \<Rightarrow>
   WalkReferencesInstructor option \<Rightarrow>
   WalkReferencesHandler \<Rightarrow> int \<Rightarrow> int \<Rightarrow> Parser \<Rightarrow> walk_log \<Rightarrow> loop_exit \<times> walk_log" where
  "walkReferenceLoop mapRawRef instructor handler maxWalkDistance i parser log =
     (if i < maxWalkDistance then
        (case Next parser of
           (None, parser1) \<Rightarrow> (Left parser1, log)
         | (Some rawRef, parser1) \<Rightarrow>
             (case mapRawRef rawRef of
                Inl err \<Rightarrow> (Returned err, log)
              | Inr ref \<Rightarrow>
                  (case instructor of
                     None \<Rightarrow> (Returned NilPointerPanic, log)
                   | Some instruct \<Rightarrow>
                       (let log1 = log\<lparr>instructed := instructed log @ [ref]\<rparr> in
                        case instruct ref of
                          (instruction, Some err) \<Rightarrow>
                            (Returned (Wrapped ''error getting instruction: %w'' [] err), log1)
                        | (instruction, None) \<Rightarrow>
                            if instruction = WalkInstructionSkip then
                              walkReferenceLoop mapRawRef instructor handler maxWalkDistance
                                (i + 1) parser1 log1
                            else if instruction = WalkInstructionStop then (Left parser1, log1)
                            else
                              (let log2 = log1\<lparr>handled := handled log1 @ [ref]\<rparr> in
                               case handler ref of
                                 Some err \<Rightarrow>
                                   (Returned (Wrapped ''error handling reference: %w'' [] err),
                                    log2)
                               | None \<Rightarrow>
                                   walkReferenceLoop mapRawRef instructor handler
                                     maxWalkDistance (i + 1) parser1 log2)))))
      else (Left parser, log))"
  by pat_completeness auto
termination
  by (relation "measure (\<lambda>(m, ins, h, d, i, p, l). length (pending p))")
     (auto simp: Next_def split: list.splits)

declare walkReferenceLoop.simps [simp del]

text \<open>\<open>walkReferenceParser\<close>: the loop, then the error of the parser.\<close>

definition walkReferenceParser ::
  "((string \<rightharpoonup> string) \<Rightarrow> error + WalkReferencesEntry) \<Rightarrow> Parser \<Rightarrow> WalkReferencesHandler \<Rightarrow>
   WalkReferencesOptions \<Rightarrow> error option \<times> walk_log" where
  "walkReferenceParser mapRawRef parser handler opts =
     (case walkReferenceLoop mapRawRef (Instructor opts) handler (MaxWalkDistance opts) 0
             parser \<lparr>instructed = [], handled = []\<rparr> of
        (Returned err, log) \<Rightarrow> (Some err, log)
      | (Left parser1, log) \<Rightarrow>
          (case Err parser1 of
             Some err \<Rightarrow>
               (Some (processGitErrorf err ''failed to parse reference walk output'' []), log)
           | None \<Rightarrow> (None, log)))"

text \<open>
  The defaults that \<open>WalkReferences\<close> fills in ("backfil optional options"). A nil
  \<open>Patterns\<close> becomes the empty slice, which is the same list here.
\<close>

definition backfill :: "WalkReferencesOptions \<Rightarrow> WalkReferencesOptions" where
  "backfill opts =
     (let opts = (if Instructor opts = None then opts\<lparr>Instructor := Some DefaultInstructor\<rparr>
                  else opts);
          opts = (if length (Fields opts) = 0
                  then opts\<lparr>Fields := [GitReferenceFieldRefName, GitReferenceFieldObjectName]\<rparr>
                  else opts);
          opts = (if MaxWalkDistance opts \<le> 0 then opts\<lparr>MaxWalkDistance := MaxInt32\<rparr>
                  else opts);
          opts = (if Sort opts = [] then opts\<lparr>Sort := GitReferenceFieldRefName\<rparr> else opts)
      in opts)"

text \<open>\<open>format.Parser(pipeOut)\<close>: a parser that has not read yet and has no error.\<close>

definition NewParser :: "(string \<rightharpoonup> string) list \<times> cmd_error option \<Rightarrow> Parser" where
  "NewParser output = \<lparr>pending = fst output, failure = snd output, parse_err = None\<rparr>"

text \<open>
  \<open>WalkReferences\<close>. The \<open>for-each-ref\<close> command, its format and the pipe between the
  command and the parser are represented by \<open>listing\<close>: what the command that is run in
  \<open>repoPath\<close> with the backfilled options writes, as the records of its output and the
  failure, if any, that ends the output.
\<close>

definition WalkReferences ::
  "(string \<Rightarrow> WalkReferencesOptions \<Rightarrow> (string \<rightharpoonup> string) list \<times> cmd_error option) \<Rightarrow>
   ((string \<rightharpoonup> string) \<Rightarrow> error + WalkReferencesEntry) \<Rightarrow>
   string \<Rightarrow> WalkReferencesHandler \<Rightarrow> WalkReferencesOptions \<Rightarrow> error option \<times> walk_log" where
  "WalkReferences listing mapRawRef repoPath handler opts =
     (if repoPath = [] then (Some ErrRepositoryPathEmpty, \<lparr>instructed = [], handled = []\<rparr>)
      else
        let opts = backfill opts;
            parser = NewParser (listing repoPath opts)
        in walkReferenceParser mapRawRef parser handler opts)"

section \<open>Commit builder (CommitFiles and its helpers)\<close>

text \<open>
  Of \<open>CommitFiles\<close>, the part that builds the commit in the shared repository is
  modelled, with the helpers it calls. The reference update that follows it is
  \<open>UpdateRef\<close> above.
\<close>

subsection \<open>Go library functions on paths\<close>

text \<open>\<open>strings.Split(s, "/")\<close>: the pieces between the slashes; one empty piece for \<open>""\<close>.\<close>

fun Split_slash :: "string \<Rightarrow> string list" where
  "Split_slash [] = [[]]"
| "Split_slash (c # cs) =
     (if c = CHR ''/'' then [] # Split_slash cs
      else (case Split_slash cs of [] \<Rightarrow> [[c]] | p # ps \<Rightarrow> (c # p) # ps))"

fun join_slash :: "string list \<Rightarrow> string" where
  "join_slash [] = []"
| "join_slash [p] = p"
| "join_slash (p # q # ps) = p @ ''/'' @ join_slash (q # ps)"

text \<open>
  \<open>path.Clean\<close>, on the elements of the path: empty and \<open>.\<close> elements go; a \<open>..\<close>
  removes the element before it, is dropped at the root, and stays at the start of a
  path that is not rooted. \<open>kept\<close> holds the elements kept so far, last first.
\<close>

fun clean_elements :: "bool \<Rightarrow> string list \<Rightarrow> string list \<Rightarrow> string list" where
  "clean_elements rooted kept [] = rev kept"
| "clean_elements rooted kept (e # es) =
     (if e = [] \<or> e = ''.'' then clean_elements rooted kept es
      else if e = ''..'' then
        (case kept of
           [] \<Rightarrow> if rooted then clean_elements rooted [] es else clean_elements rooted [e] es
         | k # ks \<Rightarrow>
             if k = ''..'' then clean_elements rooted (e # kept) es
             else clean_elements rooted ks es)
      else clean_elements rooted (e # kept) es)"

definition path_Clean :: "string \<Rightarrow> string" where
  "path_Clean p =
     (let rooted = (case p of [] \<Rightarrow> False | c # _ \<Rightarrow> c = CHR ''/'');
          out = (if rooted then ''/'' else []) @ join_slash (clean_elements rooted [] (Split_slash p))
      in if out = [] then ''.'' else out)"

text \<open>\<open>path.Join\<close> of two elements: empty elements are ignored, the result is cleaned.\<close>

definition path_Join :: "string \<Rightarrow> string \<Rightarrow> string" where
  "path_Join a b =
     (if a = [] \<and> b = [] then []
      else if a = [] then path_Clean b
      else if b = [] then path_Clean a
      else path_Clean (a @ ''/'' @ b))"

subsection \<open>Data of the commit builder\<close>

text \<open>\<open>type FileAction string\<close> and its constants.\<close>

type_synonym FileAction = string

definition CreateAction :: FileAction where
  "CreateAction = ''CREATE''"

definition UpdateAction :: FileAction where
  "UpdateAction = ''UPDATE''"

definition DeleteAction :: FileAction where
  "DeleteAction = ''DELETE''"

definition MoveAction :: FileAction where
  "MoveAction = ''MOVE''"

definition defaultFilePermission :: string where
  "defaultFilePermission = ''100644''"

text \<open>
  \<open>CommitFileAction\<close>; the field \<open>SHA\<close> is \<open>ActionSHA\<close> here. \<open>Payload\<close> is a \<open>[]byte\<close>
  and is kept as a \<open>string\<close>, byte for byte, as \<open>string(payload)\<close> is.
\<close>

record CommitFileAction =
  Action :: FileAction
  Path :: string
  Payload :: string
  ActionSHA :: string

text \<open>
  Modelled from the spec: \<open>api.TreeNode\<close> and \<open>api.Commit\<close> are not part of the sources
  at hand. The spec has tree entries that are a file, a symlink, an executable file or
  a directory, each with a SHA; git adds the submodule entry. A commit is used through
  its SHA only.
\<close>

datatype TreeNodeMode =
    TreeNodeModeFile | TreeNodeModeSymlink | TreeNodeModeExec
  | TreeNodeModeTree | TreeNodeModeCommit

record TreeNode =
  Mode :: TreeNodeMode
  NodeSHA :: SHA

definition IsExecutable :: "TreeNode \<Rightarrow> bool" where
  "IsExecutable n = (Mode n = TreeNodeModeExec)"

definition IsDir :: "TreeNode \<Rightarrow> bool" where
  "IsDir n = (Mode n = TreeNodeModeTree)"

definition IsLink :: "TreeNode \<Rightarrow> bool" where
  "IsLink n = (Mode n = TreeNodeModeSymlink)"

fun Mode_String :: "TreeNodeMode \<Rightarrow> string" where
  "Mode_String TreeNodeModeFile = ''100644''"
| "Mode_String TreeNodeModeSymlink = ''120000''"
| "Mode_String TreeNodeModeExec = ''100755''"
| "Mode_String TreeNodeModeTree = ''040000''"
| "Mode_String TreeNodeModeCommit = ''160000''"

record Commit =
  CommitSHA :: SHA

subsection \<open>The shared repository\<close>

text \<open>The calls that the commit builder makes to the shared repository.\<close>

datatype repo_call =
    CallNewSharedRepo
  | CallInitAsShared
  | CallSetIndex string
  | CallGetTreeNode string string
  | CallWriteGitObject string
  | CallAddObjectToIndex string string string
  | CallRemoveFilesFromIndex string
  | CallLsFiles string
  | CallWriteTree
  | CallCommitTree string string string
  | CallMoveObjects
  | CallClose

text \<open>
  Modelled from the spec: \<open>api.SharedRepo\<close> is not part of the sources at hand. The spec
  has a staging area with a private index, "the in-progress file-to-object mapping
  used to build a tree"; objects are written to the staging area first. The state is
  the index (a path with its mode and object name), the objects written, and the calls
  made, in order.
\<close>

record SharedRepo =
  index :: "(string \<times> string \<times> string) list"
  written :: "(string \<times> string) list"
  calls :: "repo_call list"

text \<open>
  \<open>Service\<close> is the receiver \<open>s\<close> with what the commit builder reaches through it:
  \<open>api.CleanUploadFileName\<close> (not part of the sources at hand, a parameter), the object
  name that the store gives to a payload, to an index and to a commit, the entry that
  the store has at a path of a revision, the index of a revision, and the failures of
  the calls (a call with a failure changes nothing).
\<close>

record Service =
  CleanUploadFileName :: "string \<Rightarrow> string"
  objectName :: "string \<Rightarrow> SHA"
  treeName :: "(string \<times> string \<times> string) list \<Rightarrow> SHA"
  commitName :: "string \<Rightarrow> string \<Rightarrow> string \<Rightarrow> SHA"
  treeNode :: "string \<Rightarrow> string \<Rightarrow> error + TreeNode"
  treeIndex :: "string \<Rightarrow> (string \<times> string \<times> string) list"
  failing :: "repo_call \<Rightarrow> error option"

definition made :: "repo_call \<Rightarrow> SharedRepo \<Rightarrow> SharedRepo" where
  "made c r = r\<lparr>calls := calls r @ [c]\<rparr>"

text \<open>The calls made on the way from the state \<open>r\<close> to the state \<open>r'\<close>.\<close>

definition made_since :: "SharedRepo \<Rightarrow> SharedRepo \<Rightarrow> repo_call list" where
  "made_since r r' = drop (length (calls r)) (calls r')"

definition GetTreeNode ::
  "Service \<Rightarrow> SharedRepo \<Rightarrow> string \<Rightarrow> string \<Rightarrow> (error + TreeNode) \<times> SharedRepo" where
  "GetTreeNode s r revision treePath =
     (treeNode s revision treePath, made (CallGetTreeNode revision treePath) r)"

definition WriteGitObject ::
  "Service \<Rightarrow> SharedRepo \<Rightarrow> string \<Rightarrow> (error + SHA) \<times> SharedRepo" where
  "WriteGitObject s r content =
     (let r1 = made (CallWriteGitObject content) r in
      case failing s (CallWriteGitObject content) of
        Some e \<Rightarrow> (Inl e, r1)
      | None \<Rightarrow>
          (Inr (objectName s content),
           r1\<lparr>written := written r1 @ [(SHA_String (objectName s content), content)]\<rparr>))"

definition AddObjectToIndex ::
  "Service \<Rightarrow> SharedRepo \<Rightarrow> string \<Rightarrow> string \<Rightarrow> string \<Rightarrow> error option \<times> SharedRepo" where
  "AddObjectToIndex s r mode objectHash filePath =
     (let r1 = made (CallAddObjectToIndex mode objectHash filePath) r in
      case failing s (CallAddObjectToIndex mode objectHash filePath) of
        Some e \<Rightarrow> (Some e, r1)
      | None \<Rightarrow>
          (None, r1\<lparr>index := filter (\<lambda>(p, _). p \<noteq> filePath) (index r1)
                                 @ [(filePath, mode, objectHash)]\<rparr>))"

definition RemoveFilesFromIndex ::
  "Service \<Rightarrow> SharedRepo \<Rightarrow> string \<Rightarrow> error option \<times> SharedRepo" where
  "RemoveFilesFromIndex s r filePath =
     (let r1 = made (CallRemoveFilesFromIndex filePath) r in
      case failing s (CallRemoveFilesFromIndex filePath) of
        Some e \<Rightarrow> (Some e, r1)
      | None \<Rightarrow> (None, r1\<lparr>index := filter (\<lambda>(p, _). p \<noteq> filePath) (index r1)\<rparr>))"

text \<open>\<open>LsFiles\<close>: the staged paths that are the given path or lie below it.\<close>

definition LsFiles ::
  "Service \<Rightarrow> SharedRepo \<Rightarrow> string \<Rightarrow> (error + string list) \<times> SharedRepo" where
  "LsFiles s r filePath =
     (let r1 = made (CallLsFiles filePath) r in
      case failing s (CallLsFiles filePath) of
        Some e \<Rightarrow> (Inl e, r1)
      | None \<Rightarrow>
          (Inr (filter (\<lambda>p. p = filePath \<or> HasPrefix p (filePath @ ''/'')) (map fst (index r1))),
           r1))"

definition NewSharedRepo :: "Service \<Rightarrow> SharedRepo \<Rightarrow> error option \<times> SharedRepo" where
  "NewSharedRepo s r = (failing s CallNewSharedRepo, made CallNewSharedRepo r)"

definition InitAsShared :: "Service \<Rightarrow> SharedRepo \<Rightarrow> error option \<times> SharedRepo" where
  "InitAsShared s r = (failing s CallInitAsShared, made CallInitAsShared r)"

definition Close :: "SharedRepo \<Rightarrow> SharedRepo" where
  "Close r = made CallClose r"

definition SetIndex :: "Service \<Rightarrow> SharedRepo \<Rightarrow> string \<Rightarrow> error option \<times> SharedRepo" where
  "SetIndex s r revision =
     (let r1 = made (CallSetIndex revision) r in
      case failing s (CallSetIndex revision) of
        Some e \<Rightarrow> (Some e, r1)
      | None \<Rightarrow> (None, r1\<lparr>index := treeIndex s revision\<rparr>))"

definition WriteTree :: "Service \<Rightarrow> SharedRepo \<Rightarrow> (error + SHA) \<times> SharedRepo" where
  "WriteTree s r =
     (let r1 = made CallWriteTree r in
      case failing s CallWriteTree of
        Some e \<Rightarrow> (Inl e, r1)
      | None \<Rightarrow> (Inr (treeName s (index r1)), r1))"

text \<open>
  \<open>CommitTreeWithDate\<close>: the identities and the dates go to the store as they are
  and are left out; the parent, the tree and the message are kept.
\<close>

definition CommitTreeWithDate ::
  "Service \<Rightarrow> SharedRepo \<Rightarrow> SHA \<Rightarrow> SHA \<Rightarrow> string \<Rightarrow> (error + SHA) \<times> SharedRepo" where
  "CommitTreeWithDate s r parent tree message =
     (let c = CallCommitTree (SHA_String parent) (SHA_String tree) message;
          r1 = made c r in
      case failing s c of
        Some e \<Rightarrow> (Inl e, r1)
      | None \<Rightarrow> (Inr (commitName s (SHA_String parent) (SHA_String tree) message), r1))"

definition MoveObjects :: "Service \<Rightarrow> SharedRepo \<Rightarrow> error option \<times> SharedRepo" where
  "MoveObjects s r = (failing s CallMoveObjects, made CallMoveObjects r)"

subsection \<open>File actions\<close>

text \<open>A \<open>*api.Commit\<close> may be nil: \<open>Commit option\<close>. Reading through nil panics.\<close>

definition parseMovePayload :: "Service \<Rightarrow> string \<Rightarrow> error + string \<times> string option" where
  "parseMovePayload s payload =
     (let (newPath, newContent) =
            (if CHR 0x00 \<notin> set payload then (payload, None)
             else (takeWhile (\<lambda>c. c \<noteq> CHR 0x00) payload,
                   Some (tl (dropWhile (\<lambda>c. c \<noteq> CHR 0x00) payload))));
          newPath = CleanUploadFileName s newPath
      in if newPath = [] then Inl ErrInvalidPath else Inr (newPath, newContent))"

definition getFileEntry ::
  "Service \<Rightarrow> SharedRepo \<Rightarrow> Commit option \<Rightarrow> string \<Rightarrow> string \<Rightarrow>
     (error + TreeNode) \<times> SharedRepo" where
  "getFileEntry s r commit sha filePath =
     (case commit of
        None \<Rightarrow> (Inl NilPointerPanic, r)
      | Some c \<Rightarrow>
          (case GetTreeNode s r (SHA_String (CommitSHA c)) filePath of
             (Inl err, r1) \<Rightarrow>
               if IsNotFound err then (Inl (NotFound ''path %s not found'' [filePath]), r1)
               else (Inl (Wrapped ''getFileEntry: failed to get tree for path %s: %w''
                            [filePath] err), r1)
           | (Inr entry, r1) \<Rightarrow>
               if sha \<noteq> [] \<and> sha \<noteq> SHA_String (NodeSHA entry)
               then (Inl (InvalidArgument
                            ''sha does not match for path %s [given: %s, expected: %s]''
                            [filePath, sha, SHA_String (NodeSHA entry)]), r1)
               else (Inr entry, r1)))"

text \<open>
  The loop of \<open>checkPathAvailability\<close> over the parts of the path: \<open>n\<close> is
  \<open>len(parts)\<close>, \<open>idx\<close> the index of the part at hand. A tree entry that is not found
  ends the loop, and the path is available.
\<close>

fun checkPathLoop ::
  "Service \<Rightarrow> Commit \<Rightarrow> string \<Rightarrow> bool \<Rightarrow> nat \<Rightarrow> nat \<Rightarrow> string \<Rightarrow> string list \<Rightarrow> SharedRepo \<Rightarrow>
     error option \<times> SharedRepo" where
  "checkPathLoop s commit filePath isNewFile n idx subTreePath [] r = (None, r)"
| "checkPathLoop s commit filePath isNewFile n idx subTreePath (part # rest) r =
     (let subTreePath = path_Join subTreePath part in
      case GetTreeNode s r (SHA_String (CommitSHA commit)) subTreePath of
        (Inl err, r1) \<Rightarrow>
          if IsNotFound err then (None, r1)
          else (Some (Wrapped
                  ''checkPathAvailability: failed to get tree entry for path %s: %w''
                  [subTreePath] err), r1)
      | (Inr entry, r1) \<Rightarrow>
          if idx < n - 1 then
            (if \<not> IsDir entry
             then (Some (Conflict
                     ''a file already exists where you're trying to create a subdirectory [path: %s]''
                     [subTreePath]), r1)
             else checkPathLoop s commit filePath isNewFile n (idx + 1) subTreePath rest r1)
          else if IsLink entry
            then (Some (Conflict
                    ''a symbolic link already exist where you're trying to create a subdirectory [path: %s]''
                    [subTreePath]), r1)
          else if IsDir entry
            then (Some (Conflict
                    ''a directory already exists where you're trying to create a subdirectory [path: %s]''
                    [subTreePath]), r1)
          else if filePath \<noteq> [] \<or> isNewFile
            then (Some (Conflict ''file path %s already exists'' [filePath]), r1)
          else checkPathLoop s commit filePath isNewFile n (idx + 1) subTreePath rest r1)"

definition checkPathAvailability ::
  "Service \<Rightarrow> SharedRepo \<Rightarrow> Commit option \<Rightarrow> string \<Rightarrow> bool \<Rightarrow> error option \<times> SharedRepo" where
  "checkPathAvailability s r commit filePath isNewFile =
     (case commit of
        None \<Rightarrow> (Some NilPointerPanic, r)
      | Some c \<Rightarrow>
          (let parts = Split_slash filePath
           in checkPathLoop s c filePath isNewFile (length parts) 0 [] parts r))"

definition createFile ::
  "Service \<Rightarrow> SharedRepo \<Rightarrow> Commit option \<Rightarrow> string \<Rightarrow> string \<Rightarrow> string \<Rightarrow>
     error option \<times> SharedRepo" where
  "createFile s r commit filePath mode payload =
     (case (if commit \<noteq> None then checkPathAvailability s r commit filePath True
            else (None, r)) of
        (Some err, r1) \<Rightarrow> (Some err, r1)
      | (None, r1) \<Rightarrow>
          (case WriteGitObject s r1 payload of
             (Inl err, r2) \<Rightarrow> (Some (Wrapped ''createFile: error hashing object: %w'' [] err), r2)
           | (Inr hash, r2) \<Rightarrow>
               (case AddObjectToIndex s r2 mode (SHA_String hash) filePath of
                  (Some err, r3) \<Rightarrow>
                    (Some (Wrapped ''createFile: error creating object: %w'' [] err), r3)
                | (None, r3) \<Rightarrow> (None, r3))))"

definition updateFile ::
  "Service \<Rightarrow> SharedRepo \<Rightarrow> Commit option \<Rightarrow> string \<Rightarrow> string \<Rightarrow> string \<Rightarrow> string \<Rightarrow>
     error option \<times> SharedRepo" where
  "updateFile s r commit filePath sha mode payload =
     (case getFileEntry s r commit sha filePath of
        (Inl err, r1) \<Rightarrow> (Some err, r1)
      | (Inr entry, r1) \<Rightarrow>
          (let mode = (if IsExecutable entry then ''100755'' else mode) in
           case WriteGitObject s r1 payload of
             (Inl err, r2) \<Rightarrow> (Some (Wrapped ''updateFile: error hashing object: %w'' [] err), r2)
           | (Inr hash, r2) \<Rightarrow>
               (case AddObjectToIndex s r2 mode (SHA_String hash) filePath of
                  (Some err, r3) \<Rightarrow>
                    (Some (Wrapped ''updateFile: error updating object: %w'' [] err), r3)
                | (None, r3) \<Rightarrow> (None, r3))))"

definition moveFile ::
  "Service \<Rightarrow> SharedRepo \<Rightarrow> Commit option \<Rightarrow> string \<Rightarrow> string \<Rightarrow> string \<Rightarrow> string \<Rightarrow>
     error option \<times> SharedRepo" where
  "moveFile s r commit filePath sha mode payload =
     (case parseMovePayload s payload of
        Inl err \<Rightarrow> (Some err, r)
      | Inr (newPath, newContent) \<Rightarrow>
          (case getFileEntry s r commit sha filePath of
             (Inl err, r1) \<Rightarrow> (Some err, r1)
           | (Inr entry, r1) \<Rightarrow>
               (case checkPathAvailability s r1 commit newPath False of
                  (Some err, r2) \<Rightarrow> (Some err, r2)
                | (None, r2) \<Rightarrow>
                    (case (case newContent of
                             Some content \<Rightarrow>
                               (case WriteGitObject s r2 content of
                                  (Inl err, r3) \<Rightarrow>
                                    (Inl (Wrapped ''moveFile: error hashing object: %w'' [] err),
                                     r3)
                                | (Inr hash, r3) \<Rightarrow>
                                    (Inr (SHA_String hash,
                                          if IsExecutable entry then ''100755'' else mode), r3))
                           | None \<Rightarrow>
                               (Inr (SHA_String (NodeSHA entry), Mode_String (Mode entry)), r2))
                     of
                       (Inl err, r3) \<Rightarrow> (Some err, r3)
                     | (Inr (fileHash, fileMode), r3) \<Rightarrow>
                         (case AddObjectToIndex s r3 fileMode fileHash newPath of
                            (Some err, r4) \<Rightarrow>
                              (Some (Wrapped ''moveFile: add object error: %w'' [] err), r4)
                          | (None, r4) \<Rightarrow>
                              (case RemoveFilesFromIndex s r4 filePath of
                                 (Some err, r5) \<Rightarrow>
                                   (Some (Wrapped ''moveFile: remove object error: %w'' [] err),
                                    r5)
                               | (None, r5) \<Rightarrow> (None, r5)))))))"

definition deleteFile :: "Service \<Rightarrow> SharedRepo \<Rightarrow> string \<Rightarrow> error option \<times> SharedRepo" where
  "deleteFile s r filePath =
     (case LsFiles s r filePath of
        (Inl err, r1) \<Rightarrow> (Some (Wrapped ''deleteFile: listing files error: %w'' [] err), r1)
      | (Inr filesInIndex, r1) \<Rightarrow>
          if filePath \<notin> set filesInIndex
          then (Some (NotFound ''file path %s not found'' [filePath]), r1)
          else
            (case RemoveFilesFromIndex s r1 filePath of
               (Some err, r2) \<Rightarrow>
                 (Some (Wrapped ''deleteFile: remove object error: %w'' [] err), r2)
             | (None, r2) \<Rightarrow> (None, r2)))"

text \<open>\<open>processAction\<close>: the \<open>switch\<close> has no default case.\<close>

definition processAction ::
  "Service \<Rightarrow> SharedRepo \<Rightarrow> CommitFileAction \<Rightarrow> Commit option \<Rightarrow> error option \<times> SharedRepo" where
  "processAction s r action commit =
     (let filePath = CleanUploadFileName s (Path action) in
      if filePath = [] then (Some (InvalidArgument ''path cannot be empty'' []), r)
      else if Action action = CreateAction
        then createFile s r commit filePath defaultFilePermission (Payload action)
      else if Action action = UpdateAction
        then updateFile s r commit filePath (ActionSHA action) defaultFilePermission
               (Payload action)
      else if Action action = MoveAction
        then moveFile s r commit filePath (ActionSHA action) defaultFilePermission
               (Payload action)
      else if Action action = DeleteAction then deleteFile s r filePath
      else (None, r))"

fun prepareTree ::
  "Service \<Rightarrow> SharedRepo \<Rightarrow> CommitFileAction list \<Rightarrow> Commit option \<Rightarrow> error option \<times> SharedRepo" where
  "prepareTree s r [] commit = (None, r)"
| "prepareTree s r (action # actions) commit =
     (case processAction s r action commit of
        (Some err, r1) \<Rightarrow> (Some err, r1)
      | (None, r1) \<Rightarrow> prepareTree s r1 actions commit)"

fun prepareTreeEmptyRepo ::
  "Service \<Rightarrow> SharedRepo \<Rightarrow> CommitFileAction list \<Rightarrow> error option \<times> SharedRepo" where
  "prepareTreeEmptyRepo s r [] = (None, r)"
| "prepareTreeEmptyRepo s r (action # actions) =
     (if Action action \<noteq> CreateAction
      then (Some (PreconditionFailed ''action not allowed on empty repository'' []), r)
      else
        let filePath = CleanUploadFileName s (Path action) in
        if filePath = [] then (Some (InvalidArgument ''invalid path'' []), r)
        else
          (case createFile s r None filePath defaultFilePermission (Payload action) of
             (Some err, r1) \<Rightarrow>
               (Some (InternalErr err (''failed to create file '%s'' @ [CHR 0x27])
                        [Path action]), r1)
           | (None, r1) \<Rightarrow> prepareTreeEmptyRepo s r1 actions))"

subsection \<open>The commit in the shared repository\<close>

text \<open>
  The function literal of \<open>CommitFiles\<close> that gives \<open>newCommitSHA\<close>: the shared
  repository is created and initialised, the tree is prepared, written and committed,
  and the objects are moved. Once the shared repository exists, \<open>Close\<close> is deferred:
  it runs on every way out. \<open>isEmpty\<close> is the value that \<open>CommitFiles\<close> has for the
  repository (true for a repository without branches), \<open>commit\<close> the parent commit
  (nil for an empty repository) and \<open>oldCommitSHA\<close> its SHA.
\<close>

definition commitMessage :: "string \<Rightarrow> string \<Rightarrow> string" where
  "commitMessage title message =
     TrimSpace title
       @ (if length message > 0 then [CHR 0x0A, CHR 0x0A] @ TrimSpace message else [])"

definition newCommitSHA ::
  "Service \<Rightarrow> SharedRepo \<Rightarrow> bool \<Rightarrow> CommitFileAction list \<Rightarrow> Commit option \<Rightarrow> SHA \<Rightarrow>
   string \<Rightarrow> string \<Rightarrow> (error + SHA) \<times> SharedRepo" where
  "newCommitSHA s r isEmpty actions commit oldCommitSHA title message =
     (case NewSharedRepo s r of
        (Some err, r0) \<Rightarrow> (Inl (Wrapped ''failed to create shared repository: %w'' [] err), r0)
      | (None, r0) \<Rightarrow>
          map_prod id Close
            (case InitAsShared s r0 of
               (Some err, r1) \<Rightarrow>
                 (Inl (Wrapped ''failed to create temp repo with alternates: %w'' [] err), r1)
             | (None, r1) \<Rightarrow>
                 (case (if isEmpty then
                          (case prepareTreeEmptyRepo s r1 actions of
                             (Some err, r2) \<Rightarrow>
                               (Some (Wrapped ''failed to prepare tree: %w'' [] err), r2)
                           | (None, r2) \<Rightarrow> (None, r2))
                        else
                          (case SetIndex s r1 (SHA_String oldCommitSHA) of
                             (Some err, r2) \<Rightarrow>
                               (Some (Wrapped ''failed to set index to temp repo: %w'' [] err),
                                r2)
                           | (None, r2) \<Rightarrow>
                               (case prepareTree s r2 actions commit of
                                  (Some err, r3) \<Rightarrow>
                                    (Some (Wrapped ''failed to prepare tree: %w'' [] err), r3)
                                | (None, r3) \<Rightarrow> (None, r3))))
                  of
                    (Some err, r3) \<Rightarrow> (Inl err, r3)
                  | (None, r3) \<Rightarrow>
                      (case WriteTree s r3 of
                         (Inl err, r4) \<Rightarrow>
                           (Inl (Wrapped ''failed to write tree object: %w'' [] err), r4)
                       | (Inr treeHash, r4) \<Rightarrow>
                           (case CommitTreeWithDate s r4 oldCommitSHA treeHash
                                   (commitMessage title message) of
                              (Inl err, r5) \<Rightarrow>
                                (Inl (Wrapped ''failed to commit the tree: %w'' [] err), r5)
                            | (Inr commitSHA, r5) \<Rightarrow>
                                (case MoveObjects s r5 of
                                   (Some err, r6) \<Rightarrow>
                                     (Inl (Wrapped ''failed to move git objects: %w'' [] err),
                                      r6)
                                 | (None, r6) \<Rightarrow> (Inr commitSHA, r6)))))))"

subsection \<open>Notions used in the statements\<close>

text \<open>
  \<open>prefixPath parts k\<close> is the value of \<open>subTreePath\<close> in \<open>checkPathAvailability\<close> at
  the part with index \<open>k\<close>. A \<open>staging_call\<close> writes an object or stages it.
\<close>

definition prefixPath :: "string list \<Rightarrow> nat \<Rightarrow> string" where
  "prefixPath parts k = foldl path_Join [] (take (Suc k) parts)"

definition staging_call :: "repo_call \<Rightarrow> bool" where
  "staging_call c =
     (case c of CallWriteGitObject _ \<Rightarrow> True | CallAddObjectToIndex _ _ _ \<Rightarrow> True | _ \<Rightarrow> False)"

section \<open>Concrete instances\<close>

text \<open>
  Hook clients that accept everything, that veto in pre-receive and that fail in
  post-receive; two object names; a repository at \<open>/repo\<close> whose branch \<open>main\<close> is at
  the first of them.
\<close>

definition no_output :: Output where
  "no_output = \<lparr>Messages = [], Error = None\<rparr>"

definition hooks_accept :: Git where
  "hooks_accept = \<lparr>NewClient = (\<lambda>_. None), PreReceive = (\<lambda>_. Inr no_output),
     PostReceive = (\<lambda>_. Inr no_output), fault = (\<lambda>_. None)\<rparr>"

definition hooks_veto :: Git where
  "hooks_veto = hooks_accept\<lparr>PreReceive :=
     (\<lambda>_. Inr \<lparr>Messages = [], Error = Some ''branch is protected''\<rparr>)\<rparr>"

definition hooks_post_fail :: Git where
  "hooks_post_fail = hooks_accept\<lparr>PostReceive :=
     (\<lambda>_. Inr \<lparr>Messages = [], Error = Some ''webhook failed''\<rparr>)\<rparr>"

definition sha_01 :: SHA where
  "sha_01 = \<lparr>bytes = [1], str = []\<rparr>"

definition sha_02 :: SHA where
  "sha_02 = \<lparr>bytes = [2], str = []\<rparr>"

definition world_main :: world where
  "world_main =
     \<lparr>refs = (\<lambda>_. Map.empty)(''/repo'' := [''refs/heads/main'' \<mapsto> ''01'']), trace = []\<rparr>"

text \<open>
  A listing of five branches, a conversion that keeps every field, an instructor that
  stops at once, a handler that succeeds, and walk options.
\<close>

definition raw_entry :: "string \<Rightarrow> string \<rightharpoonup> string" where
  "raw_entry name = [''refname'' \<mapsto> name, ''objectname'' \<mapsto> ''01'']"

definition five_branches ::
  "string \<Rightarrow> WalkReferencesOptions \<Rightarrow> (string \<rightharpoonup> string) list \<times> cmd_error option" where
  "five_branches repoPath opts =
     ([raw_entry ''refs/heads/a'', raw_entry ''refs/heads/b'', raw_entry ''refs/heads/c'',
       raw_entry ''refs/heads/d'', raw_entry ''refs/heads/e''], None)"

definition every_field :: "(string \<rightharpoonup> string) \<Rightarrow> error + WalkReferencesEntry" where
  "every_field raw = Inr raw"

definition stop_at_once :: WalkReferencesInstructor where
  "stop_at_once entry = (WalkInstructionStop, None)"

definition handler_ok :: WalkReferencesHandler where
  "handler_ok entry = None"

definition walk_options :: WalkReferencesOptions where
  "walk_options =
     \<lparr>Patterns = [], Fields = [], Instructor = None, Sort = [], Order = SortOrderDefault,
      MaxWalkDistance = 0\<rparr>"

definition stop_options :: WalkReferencesOptions where
  "stop_options = walk_options\<lparr>Instructor := Some stop_at_once\<rparr>"

definition two_options :: WalkReferencesOptions where
  "two_options = walk_options\<lparr>MaxWalkDistance := 2\<rparr>"

text \<open>
  For the commit builder: a cleaning function for the parameter \<open>CleanUploadFileName\<close>
  (the path is rebased on the root and cleaned, the slashes at its ends go, and a path
  with an element \<open>.git\<close> becomes the empty path); a revision whose tree has the plain
  files \<open>dir\<close> and \<open>a.txt\<close>; a service over it whose calls do not fail; a shared
  repository with nothing staged; and some actions.
\<close>

definition trim_slashes :: "string \<Rightarrow> string" where
  "trim_slashes p = rev (dropWhile (\<lambda>c. c = CHR ''/'') (rev (dropWhile (\<lambda>c. c = CHR ''/'') p)))"

definition clean_name :: "string \<Rightarrow> string" where
  "clean_name name =
     (let name = trim_slashes (path_Clean (''/'' @ name))
      in if ''.git'' \<in> set (Split_slash name) then [] else name)"

definition tree_main :: "string \<Rightarrow> string \<Rightarrow> error + TreeNode" where
  "tree_main revision treePath =
     (if treePath = ''dir'' \<or> treePath = ''a.txt''
      then Inr \<lparr>Mode = TreeNodeModeFile, NodeSHA = sha_01\<rparr>
      else Inl (NotFound ''path %s not found'' [treePath]))"

definition service_main :: Service where
  "service_main =
     \<lparr>CleanUploadFileName = clean_name, objectName = (\<lambda>_. sha_02), treeName = (\<lambda>_. sha_02),
      commitName = (\<lambda>_ _ _. sha_02), treeNode = tree_main,
      treeIndex = (\<lambda>_. [(''dir'', ''100644'', ''01''), (''a.txt'', ''100644'', ''01'')]),
      failing = (\<lambda>_. None)\<rparr>"

definition fresh_repo :: SharedRepo where
  "fresh_repo = \<lparr>index = [], written = [], calls = []\<rparr>"

definition commit_main :: Commit where
  "commit_main = \<lparr>CommitSHA = sha_01\<rparr>"

definition action_of :: "FileAction \<Rightarrow> string \<Rightarrow> string \<Rightarrow> string \<Rightarrow> CommitFileAction" where
  "action_of kind filePath payload sha =
     \<lparr>Action = kind, Path = filePath, Payload = payload, ActionSHA = sha\<rparr>"

definition create_then_delete :: "CommitFileAction list" where
  "create_then_delete =
     [action_of CreateAction ''b'' ''x'' [], action_of DeleteAction ''a.txt'' [] []]"

definition bad_create_then_delete :: "CommitFileAction list" where
  "bad_create_then_delete =
     [action_of CreateAction [] ''x'' [], action_of DeleteAction ''a.txt'' [] []]"

section \<open>Verification\<close>

subsection \<open>SHA: hex text and equality\<close>

lemma fromHexChar_cases:
  "fromHexChar c = Some a \<Longrightarrow> (c, a) \<in> set reverseHexTable"
  unfolding fromHexChar_def by (rule map_of_SomeD)

lemma fromHexChar_le15: "fromHexChar c = Some a \<Longrightarrow> a \<le> 15"
  by (drule fromHexChar_cases) (auto simp: reverseHexTable_def)

lemma fromHexChar_not_space: "fromHexChar c = Some a \<Longrightarrow> \<not> asciiSpace c"
  by (drule fromHexChar_cases) (auto simp: reverseHexTable_def asciiSpace_def)

lemma hextable_inverse:
  "fromHexChar p = Some a \<Longrightarrow> lowerHex p \<Longrightarrow> hextable ! unat a = p"
  by (drule fromHexChar_cases) (auto simp: reverseHexTable_def lowerHex_def hextable_def)

lemma byte_le15_cases:
  assumes "(a::byte) \<le> 15"
  shows "a \<in> {0,1,2,3,4,5,6,7,8,9,10,11,12,13,14,15}"
proof -
  have "unat a \<le> 15" using assms by (simp add: word_le_nat_alt)
  then have "unat a \<in> {0,1,2,3,4,5,6,7,8,9,10,11,12,13,14,15}" by simp arith
  then have "word_of_nat (unat a) \<in>
      (word_of_nat ` {0,1,2,3,4,5,6,7,8,9,10,11,12,13,14,15} :: byte set)"
    by (rule imageI)
  then show ?thesis by simp
qed

lemma nibble_hi: "(a::byte) \<le> 15 \<Longrightarrow> b \<le> 15 \<Longrightarrow> drop_bit 4 (push_bit 4 a OR b) = a"
  apply (drule byte_le15_cases)+
  apply (elim insertE emptyE; simp)
  done

lemma nibble_lo: "(a::byte) \<le> 15 \<Longrightarrow> b \<le> 15 \<Longrightarrow> (push_bit 4 a OR b) AND 15 = b"
  apply (drule byte_le15_cases)+
  apply (elim insertE emptyE; simp)
  done

lemma hex_decode_chars:
  "hex_DecodeString h = Inr b \<Longrightarrow> c \<in> set h \<Longrightarrow> fromHexChar c \<noteq> None"
  by (induction h arbitrary: b rule: hex_DecodeString.induct)
     (auto split: option.splits sum.splits)

text \<open>Decoding lower-case hex text and encoding the bytes again gives the text back.\<close>

lemma hex_encode_decode:
  "hex_DecodeString h = Inr b \<Longrightarrow> list_all lowerHex h \<Longrightarrow> hex_EncodeToString b = h"
proof (induction h arbitrary: b rule: hex_DecodeString.induct)
  case 1
  then show ?case by simp
next
  case (2 p)
  then show ?case by (simp split: option.splits)
next
  case (3 p q rest)
  from "3.prems"(1) obtain a c bs where
    a: "fromHexChar p = Some a" and c: "fromHexChar q = Some c"
    and bs: "hex_DecodeString rest = Inr bs" and b: "b = (push_bit 4 a OR c) # bs"
    by (auto split: option.splits sum.splits)
  have le: "a \<le> 15" "c \<le> 15" using a c by (auto dest: fromHexChar_le15)
  have rest: "hex_EncodeToString bs = rest"
    using "3.IH"[OF a c bs] "3.prems"(2) by simp
  have "hextable ! unat a = p" "hextable ! unat c = q"
    using a c "3.prems"(2) by (auto intro: hextable_inverse)
  then show ?case
    unfolding b hex_EncodeToString.simps nibble_hi[OF le] nibble_lo[OF le] rest
    by simp
qed

lemma hextable_lower: "k < 16 \<Longrightarrow> lowerHex (hextable ! k)"
proof -
  assume k: "k < 16"
  have len: "length hextable = 16" by (simp add: hextable_def)
  show ?thesis unfolding lowerHex_def by (rule nth_mem) (simp only: len k)
qed

lemma hex_encode_lower: "list_all lowerHex (hex_EncodeToString b)"
proof (induction b)
  case Nil
  then show ?case by simp
next
  case (Cons v vs)
  have "unat v < 256" using unsigned_less[of v, where 'a=nat] by simp
  then have "unat (drop_bit 4 v) < 16"
    by (simp add: drop_bit_eq_div unat_div)
  moreover have "unat (v AND 15) < 16"
    using word_and_le1[of v 15] by (simp add: word_le_nat_alt)
  ultimately have "lowerHex (hextable ! unat (drop_bit 4 v))"
    "lowerHex (hextable ! unat (v AND 15))"
    by (simp_all add: hextable_lower)
  then show ?case using Cons by simp
qed

lemma TrimSpace_id:
  assumes "\<forall>c\<in>set h. \<not> asciiSpace c"
  shows "TrimSpace h = h"
proof -
  have "dropWhile asciiSpace h = h" using assms by (cases h) auto
  moreover have "dropWhile asciiSpace (rev h) = rev h"
    using assms by (cases "rev h") auto
  ultimately show ?thesis by (simp add: TrimSpace_def)
qed

text \<open>
  C9 (as stated, refuted). The claim says that \<open>New(h).Equal(h)\<close> holds for every hex
  string \<open>h\<close> that decodes. The text \<open>AB\<close> decodes to the byte \<open>0xab\<close>, and \<open>Equal\<close>
  compares a string with \<open>String()\<close>, which is the lower-case text \<open>ab\<close>.
\<close>

theorem SHA_Equal_uppercase_counterexample:
  "hex_DecodeString ''AB'' = Inr [171] \<and>
   sha_New (AnyString ''AB'') = Inr \<lparr>bytes = [171], str = []\<rparr> \<and>
   \<not> Equal \<lparr>bytes = [171], str = []\<rparr> (AnyString ''AB'')"
  by (simp add: sha_New_def Equal_def SHA_String_def TrimSpace_def asciiSpace_def
      fromHexChar_def reverseHexTable_def hextable_def)

text \<open>
  C9 (amended). \<open>Equal\<close> is reflexive. For every hex string \<open>h\<close> that decodes to the
  bytes \<open>b\<close>, \<open>New(h)\<close> succeeds and is equal to \<open>b\<close>; it is equal to the string \<open>h\<close>
  exactly when \<open>h\<close> is in the canonical lower-case form.
\<close>

theorem SHA_Equal_representations:
  "Equal s (AnySHA s) \<and>
   (hex_DecodeString h = Inr b \<longrightarrow>
      sha_New (AnyString h) = Inr \<lparr>bytes = b, str = []\<rparr> \<and>
      Equal \<lparr>bytes = b, str = []\<rparr> (AnyBytes b) \<and>
      (Equal \<lparr>bytes = b, str = []\<rparr> (AnyString h) \<longleftrightarrow> list_all lowerHex h))"
proof (intro conjI impI)
  show "Equal s (AnySHA s)" by (simp add: Equal_def)
next
  assume d: "hex_DecodeString h = Inr b"
  have "\<forall>c\<in>set h. \<not> asciiSpace c"
    using hex_decode_chars[OF d] fromHexChar_not_space by blast
  then have "TrimSpace h = h" by (rule TrimSpace_id)
  then show "sha_New (AnyString h) = Inr \<lparr>bytes = b, str = []\<rparr>"
    by (simp add: sha_New_def d)
  show "Equal \<lparr>bytes = b, str = []\<rparr> (AnyBytes b)" by (simp add: Equal_def)
  show "Equal \<lparr>bytes = b, str = []\<rparr> (AnyString h) \<longleftrightarrow> list_all lowerHex h"
    using hex_encode_decode[OF d] hex_encode_lower[of b]
    by (auto simp: Equal_def SHA_String_def)
qed

theorem SHA_Equal_representations_witness:
  "hex_DecodeString ''4b825dc6'' = Inr [75, 130, 93, 198] \<and>
   sha_New (AnyString ''4b825dc6'') = Inr \<lparr>bytes = [75, 130, 93, 198], str = []\<rparr> \<and>
   Equal \<lparr>bytes = [75, 130, 93, 198], str = []\<rparr> (AnyBytes [75, 130, 93, 198]) \<and>
   Equal \<lparr>bytes = [75, 130, 93, 198], str = []\<rparr> (AnyString ''4b825dc6'')"
proof -
  have d: "hex_DecodeString ''4b825dc6'' = Inr [75, 130, 93, 198]"
    by (simp add: fromHexChar_def reverseHexTable_def)
  have l: "list_all lowerHex ''4b825dc6''"
    by (simp add: lowerHex_def hextable_def)
  show ?thesis
    using SHA_Equal_representations
      [of "\<lparr>bytes = [], str = []\<rparr>" "''4b825dc6''" "[75, 130, 93, 198]"] d l
    by simp
qed

subsection \<open>Reference store\<close>

lemma GetRef_refs_only:
  "refs w' = refs w \<Longrightarrow> fst (GetRef g w' p r) = fst (GetRef g w p r)"
  by (simp add: GetRef_def Run_def called_def Let_def split: option.splits sum.splits prod.splits)

text \<open>
  C3. With an empty \<open>oldValue\<close>, an empty \<open>newValue\<close>, or both values \<open>Nil\<close>,
  \<open>updateRefWithHooks\<close> returns an error and the world is the one it started from: no
  hook was called, no command was run, no reference has changed.
\<close>

theorem updateRefWithHooks_rejects_before_effects:
  assumes "IsEmpty oldValue \<or> IsEmpty newValue \<or> (IsNil oldValue \<and> IsNil newValue)"
  shows "\<exists>err. updateRefWithHooks g w envVars repoPath ref oldValue newValue = (Some err, w)"
  using assms by (auto simp: updateRefWithHooks_def)

text \<open>
  C1. When the pre-receive call fails or answers with an \<open>Error\<close>, \<open>updateRefWithHooks\<close>
  returns an error, no command has been run (so \<open>update-ref\<close> was never invoked), the
  references are the ones from before, and every \<open>GetRef\<close> gives what it gave before.
\<close>

theorem pre_receive_failure_leaves_ref:
  assumes "(\<exists>e. PreReceive g \<lparr>RefUpdates = [\<lparr>Ref = ref, Old = oldValue, New = newValue\<rparr>]\<rparr> = Inl e) \<or>
           (\<exists>out msg. PreReceive g \<lparr>RefUpdates = [\<lparr>Ref = ref, Old = oldValue, New = newValue\<rparr>]\<rparr> = Inr out
               \<and> Error out = Some msg)"
  shows "\<exists>err w'. updateRefWithHooks g w envVars repoPath ref oldValue newValue = (Some err, w') \<and>
           refs w' = refs w \<and>
           (\<forall>c. Ran c \<notin> set (calls_since w w')) \<and>
           (\<forall>p r. fst (GetRef g w' p r) = fst (GetRef g w p r))"
proof -
  have "\<exists>err w'. updateRefWithHooks g w envVars repoPath ref oldValue newValue = (Some err, w') \<and>
           refs w' = refs w \<and> (\<forall>c. Ran c \<notin> set (calls_since w w'))"
    using assms
    by (auto simp: updateRefWithHooks_def Let_def called_def calls_since_def split: option.splits)
  then show ?thesis using GetRef_refs_only by blast
qed

lemma sha_Nil_bytes: "sha_Nil = \<lparr>bytes = replicate 20 0, str = []\<rparr>"
  by (simp add: sha_Nil_def MustNew_def sha_New_def Nil_hex_def TrimSpace_def asciiSpace_def
      fromHexChar_def reverseHexTable_def numeral_eq_Suc)



lemma IsNil_not_empty: "IsNil s \<Longrightarrow> \<not> IsEmpty s"
  by (auto simp add: IsNil_def Equal_def sha_Nil_bytes IsEmpty_def IsZero_def)


lemma Run_refs_only:
  "refs w' = refs w \<Longrightarrow> fst (Run g w' c) = fst (Run g w c) \<and> refs (snd (Run g w' c)) = refs (snd (Run g w c))"
  by (simp add: Run_def called_def Let_def split: option.splits sum.splits prod.splits)

lemma Run_update_ref_success:
  assumes "fst (Run g w (updateRefCommand repoPath ref oldValue newValue)) = Inr stdout"
  shows "refs (snd (Run g w (updateRefCommand repoPath ref oldValue newValue))) repoPath ref =
           (if IsNil newValue then None else Some (SHA_String newValue))"
  using assms
  by (auto simp: Run_def called_def Let_def updateRefCommand_def store_run_def
      store_update_ref_def store_delete_ref_def split: option.splits sum.splits if_splits)

text \<open>
  C4. When the input is valid, the client is created, pre-receive accepts, the
  \<open>update-ref\<close> command succeeds and the post-receive call fails or answers with an
  \<open>Error\<close>, then \<open>updateRefWithHooks\<close> returns an error and the references are the ones
  the command left: the ref holds the new value (it is gone when the new value is
  \<open>Nil\<close>).
\<close>

theorem post_receive_failure_keeps_update:
  assumes valid: "repoPath \<noteq> []" "\<not> IsEmpty oldValue" "\<not> IsEmpty newValue"
      "\<not> (IsNil oldValue \<and> IsNil newValue)"
    and client: "NewClient g envVars = None"
    and pre: "PreReceive g \<lparr>RefUpdates = [\<lparr>Ref = ref, Old = oldValue, New = newValue\<rparr>]\<rparr> = Inr out"
      "Error out = None"
    and cas: "fst (Run g w (updateRefCommand repoPath ref oldValue newValue)) = Inr stdout"
    and post: "(\<exists>e. PostReceive g \<lparr>PostRefUpdates = [\<lparr>Ref = ref, Old = oldValue, New = newValue\<rparr>]\<rparr> = Inl e) \<or>
         (\<exists>out' msg. PostReceive g \<lparr>PostRefUpdates = [\<lparr>Ref = ref, Old = oldValue, New = newValue\<rparr>]\<rparr> = Inr out'
               \<and> Error out' = Some msg)"
  shows "\<exists>err w'. updateRefWithHooks g w envVars repoPath ref oldValue newValue = (Some err, w') \<and>
           refs w' = refs (snd (Run g w (updateRefCommand repoPath ref oldValue newValue))) \<and>
           refs w' repoPath ref = (if IsNil newValue then None else Some (SHA_String newValue))"
proof -
  define cmd where "cmd = updateRefCommand repoPath ref oldValue newValue"
  define w2 where "w2 = called (CalledPreReceive \<lparr>RefUpdates = [\<lparr>Ref = ref, Old = oldValue, New = newValue\<rparr>]\<rparr>)
     (called (CalledNewClient envVars) w)"
  have r: "refs w2 = refs w" by (simp add: w2_def called_def)
  obtain res w3 where run: "Run g w2 cmd = (res, w3)" by (cases "Run g w2 cmd")
  have "fst (Run g w2 cmd) = Inr stdout" and r3: "refs w3 = refs (snd (Run g w cmd))"
    using Run_refs_only[OF r, of g cmd] cas run by (simp_all add: cmd_def)
  then have res: "res = Inr stdout" using run by simp
  have "\<exists>err w'. updateRefWithHooks g w envVars repoPath ref oldValue newValue = (Some err, w') \<and>
           refs w' = refs w3"
    using valid client pre post run[unfolded w2_def cmd_def] res
    by (auto simp: updateRefWithHooks_def Let_def called_def)
  then show ?thesis
    using r3 Run_update_ref_success[OF cas] by (auto simp: cmd_def)
qed

lemma sample_strings: "SHA_String sha_01 = ''01''" "SHA_String sha_02 = ''02''"
  by (simp_all add: sha_01_def sha_02_def SHA_String_def hextable_def drop_bit_eq_div)

lemma sample_flags:
  "\<not> IsEmpty sha_01" "\<not> IsEmpty sha_02" "\<not> IsNil sha_01" "\<not> IsNil sha_02" "IsEmpty sha_None"
  by (auto simp: sha_01_def sha_02_def sha_None_def IsEmpty_def IsZero_def IsNil_def Equal_def
      sha_Nil_bytes dest: arg_cong[where f=length])

theorem updateRefWithHooks_rejects_before_effects_witness:
  "IsEmpty sha_None \<and>
   (\<exists>err. updateRefWithHooks hooks_accept world_main Map.empty ''/repo'' ''refs/heads/main''
             sha_None sha_02 = (Some err, world_main))"
proof -
  have h: "IsEmpty sha_None" by (rule sample_flags)
  show ?thesis
    using h updateRefWithHooks_rejects_before_effects[of sha_None sha_02 hooks_accept world_main Map.empty "''/repo''" "''refs/heads/main''"]
    by simp
qed

theorem pre_receive_failure_leaves_ref_witness:
  "PreReceive hooks_veto \<lparr>RefUpdates = [\<lparr>Ref = ''refs/heads/main'', Old = sha_01, New = sha_02\<rparr>]\<rparr>
     = Inr \<lparr>Messages = [], Error = Some ''branch is protected''\<rparr> \<and>
   (\<exists>err w'. updateRefWithHooks hooks_veto world_main Map.empty ''/repo'' ''refs/heads/main''
                sha_01 sha_02 = (Some err, w') \<and>
      refs w' = refs world_main \<and>
      (\<forall>c. Ran c \<notin> set (calls_since world_main w')) \<and>
      (\<forall>p r. fst (GetRef hooks_veto w' p r) = fst (GetRef hooks_veto world_main p r)))"
proof -
  have h: "PreReceive hooks_veto
      \<lparr>RefUpdates = [\<lparr>Ref = ''refs/heads/main'', Old = sha_01, New = sha_02\<rparr>]\<rparr>
     = Inr \<lparr>Messages = [], Error = Some ''branch is protected''\<rparr>"
    by (simp add: hooks_veto_def)
  show ?thesis
    using h pre_receive_failure_leaves_ref[of hooks_veto "''refs/heads/main''" sha_01 sha_02 world_main Map.empty "''/repo''"]
    by simp
qed



theorem post_receive_failure_keeps_update_witness:
  "fst (Run hooks_post_fail world_main (updateRefCommand ''/repo'' ''refs/heads/main'' sha_01 sha_02))
     = Inr [] \<and>
   PostReceive hooks_post_fail
      \<lparr>PostRefUpdates = [\<lparr>Ref = ''refs/heads/main'', Old = sha_01, New = sha_02\<rparr>]\<rparr>
     = Inr \<lparr>Messages = [], Error = Some ''webhook failed''\<rparr> \<and>
   (\<exists>err w'. updateRefWithHooks hooks_post_fail world_main Map.empty ''/repo'' ''refs/heads/main''
                sha_01 sha_02 = (Some err, w') \<and>
      refs w' ''/repo'' ''refs/heads/main'' = Some ''02'')"
proof -
  have cas: "fst (Run hooks_post_fail world_main
       (updateRefCommand ''/repo'' ''refs/heads/main'' sha_01 sha_02)) = Inr []"
    by (simp add: Run_def updateRefCommand_def sample_flags sample_strings hooks_post_fail_def
        hooks_accept_def world_main_def called_def store_run_def store_update_ref_def Nil_hex_def)
  have post: "PostReceive hooks_post_fail
      \<lparr>PostRefUpdates = [\<lparr>Ref = ''refs/heads/main'', Old = sha_01, New = sha_02\<rparr>]\<rparr>
     = Inr \<lparr>Messages = [], Error = Some ''webhook failed''\<rparr>"
    by (simp add: hooks_post_fail_def)
  have pre: "PreReceive hooks_post_fail
      \<lparr>RefUpdates = [\<lparr>Ref = ''refs/heads/main'', Old = sha_01, New = sha_02\<rparr>]\<rparr> = Inr no_output"
    "Error no_output = None" "NewClient hooks_post_fail Map.empty = None"
    by (simp_all add: hooks_post_fail_def hooks_accept_def no_output_def)
  show ?thesis
    using cas post
      post_receive_failure_keeps_update[of "''/repo''" sha_01 sha_02 hooks_post_fail Map.empty "''refs/heads/main''" no_output
         world_main "[]", OF _ sample_flags(1) sample_flags(2) _ pre(3) pre(1) pre(2) cas]
    by (auto simp: sample_flags sample_strings)
qed

subsection \<open>Reference walker\<close>

lemma loop_handled_bound:
  "length (handled (snd (walkReferenceLoop m ins h d i p log)))
     \<le> length (handled log) + nat (d - i)"
proof (induction "pending p" arbitrary: i p log)
  case Nil
  then have "Next p = (None, p\<lparr>parse_err := failure p\<rparr>)"
    by (simp add: Next_def split: list.splits)
  then show ?case
    by (subst walkReferenceLoop.simps) simp
next
  case (Cons r rs)
  let ?p1 = "p\<lparr>pending := rs\<rparr>"
  have nx: "Next p = (Some r, ?p1)"
    using Cons.hyps(2)[symmetric] by (simp add: Next_def)
  have IH: "length (handled (snd (walkReferenceLoop m ins h d j ?p1 l)))
      \<le> length (handled l) + nat (d - j)" for j l
    using Cons.hyps(1)[of ?p1] by simp
  show ?case
  proof (cases "i < d")
    case False
    then show ?thesis by (subst walkReferenceLoop.simps) simp
  next
    case True
    then have step: "nat (d - (i + 1)) + 1 = nat (d - i)" by simp
    show ?thesis
    proof (cases "m r")
      case (Inl e)
      then show ?thesis using True by (subst walkReferenceLoop.simps) (simp add: nx)
    next
      case (Inr ref)
      show ?thesis
      proof (cases ins)
        case None
        then show ?thesis using True Inr by (subst walkReferenceLoop.simps) (simp add: nx)
      next
        case (Some f)
        obtain instruction e where ins: "f ref = (instruction, e)" by (cases "f ref")
        show ?thesis
          using True Inr Some ins step
            IH[of "i + 1" "log\<lparr>instructed := instructed log @ [ref]\<rparr>"]
            IH[of "i + 1" "log\<lparr>instructed := instructed log @ [ref],
                                handled := handled log @ [ref]\<rparr>"]
          by (subst walkReferenceLoop.simps)
             (auto simp: nx Let_def split: option.splits)
      qed
    qed
  qed
qed

lemma backfill_fields:
  "Instructor opts = Some ins \<Longrightarrow> Instructor (backfill opts) = Some ins"
  "0 < MaxWalkDistance opts \<Longrightarrow> MaxWalkDistance (backfill opts) = MaxWalkDistance opts"
  "0 < MaxWalkDistance (backfill opts)"
  by (simp_all add: backfill_def Let_def MaxInt32_def)

text \<open>
  C5 (amended). A walk with a positive \<open>MaxWalkDistance\<close> gives at most that many
  entries to the handler (at most 2 for a distance of 2, whatever the listing holds).
  When the instructor answers \<open>Stop\<close> on the first entry, the walk ends without error;
  the instructor has been called once and the handler not at all.
\<close>

theorem walk_distance_cap_and_stop:
  "(0 < MaxWalkDistance opts \<longrightarrow>
      length (handled (snd (WalkReferences listing mapRawRef repoPath handler opts)))
        \<le> nat (MaxWalkDistance opts)) \<and>
   (repoPath \<noteq> [] \<and> fst (listing repoPath (backfill opts)) = rawRef # rest \<and>
    mapRawRef rawRef = Inr ref \<and> Instructor opts = Some ins \<and>
    ins ref = (WalkInstructionStop, None) \<longrightarrow>
      WalkReferences listing mapRawRef repoPath handler opts =
        (None, \<lparr>instructed = [ref], handled = []\<rparr>))"
proof (intro conjI impI)
  assume d: "0 < MaxWalkDistance opts"
  have "length (handled (snd (walkReferenceParser mapRawRef p handler (backfill opts))))
      \<le> nat (MaxWalkDistance opts)" for p
    using loop_handled_bound[of mapRawRef "Instructor (backfill opts)" handler
        "MaxWalkDistance opts" 0 p "\<lparr>instructed = [], handled = []\<rparr>"]
    by (auto simp: walkReferenceParser_def backfill_fields(2)[OF d]
        split: prod.splits loop_exit.splits option.splits)
  then show "length (handled (snd (WalkReferences listing mapRawRef repoPath handler opts)))
        \<le> nat (MaxWalkDistance opts)"
    by (simp add: WalkReferences_def Let_def)
next
  assume a: "repoPath \<noteq> [] \<and> fst (listing repoPath (backfill opts)) = rawRef # rest \<and>
    mapRawRef rawRef = Inr ref \<and> Instructor opts = Some ins \<and>
    ins ref = (WalkInstructionStop, None)"
  let ?p = "NewParser (listing repoPath (backfill opts))"
  have nx: "Next ?p = (Some rawRef, ?p\<lparr>pending := rest\<rparr>)"
    using a by (simp add: Next_def NewParser_def)
  have "walkReferenceLoop mapRawRef (Some ins) handler (MaxWalkDistance (backfill opts)) 0 ?p
          \<lparr>instructed = [], handled = []\<rparr>
        = (Left (?p\<lparr>pending := rest\<rparr>), \<lparr>instructed = [ref], handled = []\<rparr>)"
    using a backfill_fields(3)[of opts]
    by (subst walkReferenceLoop.simps)
       (simp add: nx WalkInstructionStop_def WalkInstructionSkip_def)
  then show "WalkReferences listing mapRawRef repoPath handler opts =
        (None, \<lparr>instructed = [ref], handled = []\<rparr>)"
    using a
    by (simp add: WalkReferences_def Let_def walkReferenceParser_def backfill_fields(1)
        Err_def NewParser_def)
qed

lemma walk_two_of_five:
  "WalkReferences five_branches every_field ''/repo'' handler_ok two_options =
     (None, \<lparr>instructed = [raw_entry ''refs/heads/a'', raw_entry ''refs/heads/b''],
             handled = [raw_entry ''refs/heads/a'', raw_entry ''refs/heads/b'']\<rparr>)"
  by (simp add: WalkReferences_def Let_def walkReferenceParser_def backfill_def two_options_def
      walk_options_def five_branches_def every_field_def handler_ok_def NewParser_def
      DefaultInstructor_def Next_def Err_def WalkInstructionHandle_def WalkInstructionSkip_def
      WalkInstructionStop_def walkReferenceLoop.simps)

text \<open>
  C5 (as stated, refuted). The claim has exactly one handler call when the instructor
  answers \<open>Stop\<close> on the first entry. The loop leaves before it calls the handler: over
  five branches the handler is not called.
\<close>

theorem walk_stop_first_counterexample:
  "fst (five_branches ''/repo'' (backfill stop_options)) \<noteq> [] \<and>
   stop_at_once (raw_entry ''refs/heads/a'') = (WalkInstructionStop, None) \<and>
   WalkReferences five_branches every_field ''/repo'' handler_ok stop_options =
     (None, \<lparr>instructed = [raw_entry ''refs/heads/a''], handled = []\<rparr>) \<and>
   length (handled (snd (WalkReferences five_branches every_field ''/repo'' handler_ok
      stop_options))) \<noteq> 1"
  by (simp add: WalkReferences_def Let_def walkReferenceParser_def backfill_def stop_options_def
      walk_options_def five_branches_def every_field_def handler_ok_def NewParser_def
      stop_at_once_def Next_def Err_def WalkInstructionHandle_def WalkInstructionSkip_def
      WalkInstructionStop_def walkReferenceLoop.simps MaxInt32_def)

theorem walk_distance_cap_and_stop_witness:
  "0 < MaxWalkDistance two_options \<and>
   length (fst (five_branches ''/repo'' (backfill two_options))) = 5 \<and>
   length (handled (snd (WalkReferences five_branches every_field ''/repo'' handler_ok
      two_options))) \<le> 2 \<and>
   Instructor stop_options = Some stop_at_once \<and>
   stop_at_once (raw_entry ''refs/heads/a'') = (WalkInstructionStop, None) \<and>
   WalkReferences five_branches every_field ''/repo'' handler_ok stop_options =
     (None, \<lparr>instructed = [raw_entry ''refs/heads/a''], handled = []\<rparr>)"
proof -
  have h1: "0 < MaxWalkDistance two_options" "nat (MaxWalkDistance two_options) = 2"
    by (simp_all add: two_options_def walk_options_def)
  have h2: "''/repo'' \<noteq> []" "Instructor stop_options = Some stop_at_once"
    "stop_at_once (raw_entry ''refs/heads/a'') = (WalkInstructionStop, None)"
    "every_field (raw_entry ''refs/heads/a'') = Inr (raw_entry ''refs/heads/a'')"
    by (simp_all add: stop_options_def walk_options_def stop_at_once_def every_field_def)
  have h3: "fst (five_branches ''/repo'' (backfill stop_options)) =
      raw_entry ''refs/heads/a'' # [raw_entry ''refs/heads/b'', raw_entry ''refs/heads/c'',
       raw_entry ''refs/heads/d'', raw_entry ''refs/heads/e'']"
    "length (fst (five_branches ''/repo'' (backfill two_options))) = 5"
    by (simp_all add: five_branches_def)
  show ?thesis
    using h1 h2 h3
      walk_distance_cap_and_stop[where opts = two_options and listing = five_branches and mapRawRef = every_field
         and repoPath = "''/repo''" and handler = handler_ok, THEN conjunct1]
      walk_distance_cap_and_stop[where opts = stop_options and listing = five_branches and mapRawRef = every_field
         and repoPath = "''/repo''" and handler = handler_ok
         and rawRef = "raw_entry ''refs/heads/a''" and ref = "raw_entry ''refs/heads/a''"
         and ins = stop_at_once, THEN conjunct2]
    by simp
qed

subsection \<open>Commit builder\<close>

text \<open>
  C10. An action whose kind is none of Create, Update, Move and Delete, with a path
  that cleans to a non-empty string, makes \<open>processAction\<close> return no error and leave
  the shared repository as it was: no call is made and the index is unchanged.
\<close>

theorem unknown_action_ignored:
  assumes "Action a \<notin> {CreateAction, UpdateAction, MoveAction, DeleteAction}"
    and "CleanUploadFileName s (Path a) \<noteq> []"
  shows "processAction s r a commit = (None, r)"
  using assms by (simp add: processAction_def Let_def)

lemma checkPathLoop_conflict:
  assumes "d < length rest" "idx + d < n - 1"
    and "\<forall>j<d. \<exists>e. treeNode s (SHA_String (CommitSHA c)) (foldl path_Join sub (take (Suc j) rest)) = Inr e \<and> IsDir e"
    and "treeNode s (SHA_String (CommitSHA c)) (foldl path_Join sub (take (Suc d) rest)) = Inr entry"
    and "\<not> IsDir entry"
  shows "\<exists>r'. checkPathLoop s c fp isNew n idx sub rest r =
           (Some (Conflict
              ''a file already exists where you're trying to create a subdirectory [path: %s]''
              [foldl path_Join sub (take (Suc d) rest)]), r') \<and> index r' = index r"
  using assms
proof (induction d arbitrary: idx sub rest r)
  case 0
  then obtain part rest' where rest: "rest = part # rest'" by (cases rest) auto
  with 0 show ?case
    by (simp add: GetTreeNode_def made_def Let_def)
next
  case (Suc d)
  then obtain part rest' where rest: "rest = part # rest'" by (cases rest) auto
  from Suc.prems(3) obtain e where
    e: "treeNode s (SHA_String (CommitSHA c)) (path_Join sub part) = Inr e" "IsDir e"
    using rest by force
  have "\<exists>r'. checkPathLoop s c fp isNew n (idx + 1) (path_Join sub part) rest'
            (made (CallGetTreeNode (SHA_String (CommitSHA c)) (path_Join sub part)) r) =
           (Some (Conflict
              ''a file already exists where you're trying to create a subdirectory [path: %s]''
              [foldl path_Join (path_Join sub part) (take (Suc d) rest')]), r') \<and>
           index r' = index (made (CallGetTreeNode (SHA_String (CommitSHA c)) (path_Join sub part)) r)"
  proof (rule Suc.IH)
    show "d < length rest'" using Suc.prems(1) rest by simp
    show "idx + 1 + d < n - 1" using Suc.prems(2) by simp
    show "\<forall>j<d. \<exists>e. treeNode s (SHA_String (CommitSHA c))
            (foldl path_Join (path_Join sub part) (take (Suc j) rest')) = Inr e \<and> IsDir e"
    proof (intro allI impI)
      fix j assume "j < d"
      then have "Suc j < Suc d" by simp
      from Suc.prems(3)[rule_format, OF this] show "\<exists>e. treeNode s (SHA_String (CommitSHA c))
            (foldl path_Join (path_Join sub part) (take (Suc j) rest')) = Inr e \<and> IsDir e"
        by (simp add: rest)
    qed
    show "treeNode s (SHA_String (CommitSHA c))
            (foldl path_Join (path_Join sub part) (take (Suc d) rest')) = Inr entry"
      using Suc.prems(4) by (simp add: rest)
    show "\<not> IsDir entry" by (rule Suc.prems(5))
  qed
  moreover have "idx < n - 1" using Suc.prems(2) by simp
  ultimately show ?case
    using e by (simp add: rest GetTreeNode_def Let_def made_def)
qed

text \<open>
  C8. A Create action on a repository with a parent commit: when the parts of the
  cleaned path before the part with index \<open>k\<close> resolve to directories in the tree of the
  parent commit, and the part with index \<open>k\<close>, which is not the last, resolves to an
  entry that is not a directory, \<open>processAction\<close> fails with \<open>Conflict\<close> and stages
  nothing. Creating \<open>dir/file\<close> when \<open>dir\<close> is a plain file is the case \<open>k = 0\<close>.
\<close>

theorem create_below_file_conflicts:
  assumes "Action a = CreateAction"
    and "Split_slash (CleanUploadFileName s (Path a)) = parts"
    and "k < length parts - 1"
    and "\<forall>j<k. \<exists>e. treeNode s (SHA_String (CommitSHA c)) (prefixPath parts j) = Inr e \<and> IsDir e"
    and "treeNode s (SHA_String (CommitSHA c)) (prefixPath parts k) = Inr entry"
    and "\<not> IsDir entry"
  shows "\<exists>r'. processAction s r a (Some c) =
           (Some (Conflict
              ''a file already exists where you're trying to create a subdirectory [path: %s]''
              [prefixPath parts k]), r') \<and> index r' = index r"
proof -
  have ne: "CleanUploadFileName s (Path a) \<noteq> []"
    using assms(2,3) by auto
  have "\<exists>r'. checkPathLoop s c (CleanUploadFileName s (Path a)) True (length parts) 0 [] parts r =
           (Some (Conflict
              ''a file already exists where you're trying to create a subdirectory [path: %s]''
              [foldl path_Join [] (take (Suc k) parts)]), r') \<and> index r' = index r"
    using assms(3-6) by (intro checkPathLoop_conflict) (auto simp: prefixPath_def)
  then show ?thesis
    using assms(1,2) ne
    by (auto simp: processAction_def Let_def createFile_def checkPathAvailability_def
        prefixPath_def)
qed


lemma createFile_calls:
  "createFile s r None fp mode payload = (res, r') \<Longrightarrow>
     \<exists>cs. calls r' = calls r @ cs \<and> list_all staging_call cs"
  by (auto simp: createFile_def WriteGitObject_def AddObjectToIndex_def Let_def made_def
      staging_call_def split: option.splits prod.splits sum.splits)

lemma prepareTreeEmptyRepo_calls:
  "prepareTreeEmptyRepo s r actions = (res, r') \<Longrightarrow>
     \<exists>cs. calls r' = calls r @ cs \<and> list_all staging_call cs"
proof (induction actions arbitrary: r)
  case Nil
  then show ?case by simp
next
  case (Cons a actions)
  show ?case
  proof (cases "Action a \<noteq> CreateAction \<or> CleanUploadFileName s (Path a) = []")
    case True
    then show ?thesis using Cons.prems by (auto simp: Let_def split: if_splits)
  next
    case False
    obtain e r1 where cf: "createFile s r None (CleanUploadFileName s (Path a))
        defaultFilePermission (Payload a) = (e, r1)"
      by (cases "createFile s r None (CleanUploadFileName s (Path a))
        defaultFilePermission (Payload a)")
    from createFile_calls[OF cf] obtain cs where
      cs: "calls r1 = calls r @ cs" "list_all staging_call cs" by blast
    show ?thesis
    proof (cases e)
      case (Some err)
      then show ?thesis using False Cons.prems cf cs by (auto simp: Let_def)
    next
      case None
      then have "prepareTreeEmptyRepo s r1 actions = (res, r')"
        using False Cons.prems cf by (simp add: Let_def)
      from Cons.IH[OF this] obtain cs' where
        "calls r' = calls r1 @ cs'" "list_all staging_call cs'" by blast
      then show ?thesis using cs by auto
    qed
  qed
qed

lemma prepareTreeEmptyRepo_fails:
  "\<exists>a\<in>set actions. Action a \<noteq> CreateAction \<Longrightarrow>
     fst (prepareTreeEmptyRepo s r actions) \<noteq> None"
proof (induction actions arbitrary: r)
  case Nil
  then show ?case by simp
next
  case (Cons a actions)
  show ?case
  proof (cases "Action a \<noteq> CreateAction")
    case True
    then show ?thesis by simp
  next
    case False
    with Cons.prems have "\<exists>a\<in>set actions. Action a \<noteq> CreateAction" by simp
    from Cons.IH[OF this] show ?thesis
      using False by (auto simp: Let_def split: prod.splits option.splits)
  qed
qed

lemma prepareTreeEmptyRepo_append:
  "prepareTreeEmptyRepo s r (xs @ ys) =
     (case prepareTreeEmptyRepo s r xs of
        (Some e, r1) \<Rightarrow> (Some e, r1)
      | (None, r1) \<Rightarrow> prepareTreeEmptyRepo s r1 ys)"
  by (induction xs arbitrary: r) (auto simp: Let_def split: prod.splits option.splits)

text \<open>
  C6 (amended). On an empty repository, a list of actions with an action that is not
  Create makes the commit fail, and neither a tree nor a commit has been written. When
  the shared repository has been set up and the actions before an action that is not
  Create have been staged without error, the failure is \<open>PreconditionFailed\<close>.
\<close>

theorem empty_repo_rejects_other_actions:
  assumes "\<exists>a\<in>set actions. Action a \<noteq> CreateAction"
  shows "\<exists>err r'. newCommitSHA s r True actions commit oldCommitSHA title message = (Inl err, r') \<and>
           CallWriteTree \<notin> set (made_since r r') \<and>
           (\<forall>p t m. CallCommitTree p t m \<notin> set (made_since r r')) \<and>
           (\<forall>before a after.
              actions = before @ a # after \<and> Action a \<noteq> CreateAction \<and>
              failing s CallNewSharedRepo = None \<and> failing s CallInitAsShared = None \<and>
              fst (prepareTreeEmptyRepo s (made CallInitAsShared (made CallNewSharedRepo r)) before)
                = None \<longrightarrow>
              err = Wrapped ''failed to prepare tree: %w'' []
                      (PreconditionFailed ''action not allowed on empty repository'' []) \<and>
              AsStatus err = StatusPreconditionFailed)"
proof (cases "failing s CallNewSharedRepo")
  case (Some e)
  then show ?thesis
    by (simp add: newCommitSHA_def NewSharedRepo_def made_since_def made_def)
next
  case None
  note n1 = this
  let ?r0 = "made CallNewSharedRepo r"
  show ?thesis
  proof (cases "failing s CallInitAsShared")
    case (Some e)
    then show ?thesis
      using n1
      by (simp add: newCommitSHA_def NewSharedRepo_def InitAsShared_def Close_def
          made_since_def made_def)
  next
    case None
    note n2 = this
    let ?r1 = "made CallInitAsShared ?r0"
    obtain res r2 where p: "prepareTreeEmptyRepo s ?r1 actions = (res, r2)"
      by (cases "prepareTreeEmptyRepo s ?r1 actions")
    from prepareTreeEmptyRepo_fails[OF assms, of s ?r1] p obtain e where res: "res = Some e"
      by (cases res) auto
    from prepareTreeEmptyRepo_calls[OF p] obtain cs where
      cs: "calls r2 = calls ?r1 @ cs" "list_all staging_call cs" by blast
    have run: "newCommitSHA s r True actions commit oldCommitSHA title message =
        (Inl (Wrapped ''failed to prepare tree: %w'' [] e), Close r2)"
      using n1 n2 p res
      by (simp add: newCommitSHA_def NewSharedRepo_def InitAsShared_def)
    have since: "made_since r (Close r2) = [CallNewSharedRepo, CallInitAsShared] @ cs @ [CallClose]"
      using cs by (simp add: made_since_def Close_def made_def)
    have nocs: "CallWriteTree \<notin> set cs" "\<And>p t m. CallCommitTree p t m \<notin> set cs"
      using cs(2) by (auto simp: list_all_iff staging_call_def)
    have pre: "e = PreconditionFailed ''action not allowed on empty repository'' []"
      if h1: "actions = before @ a # after" and h2: "Action a \<noteq> CreateAction"
        and h3: "fst (prepareTreeEmptyRepo s ?r1 before) = None" for before a after
    proof -
      obtain rb where "prepareTreeEmptyRepo s ?r1 before = (None, rb)"
        using h3 by (cases "prepareTreeEmptyRepo s ?r1 before") auto
      then have "prepareTreeEmptyRepo s ?r1 actions =
          (Some (PreconditionFailed ''action not allowed on empty repository'' []), rb)"
        using h1 h2 by (simp add: prepareTreeEmptyRepo_append)
      with p res show ?thesis by simp
    qed
    show ?thesis
      using nocs pre
      by (auto simp: PreconditionFailed_def run since)
  qed
qed

lemma clean_name_samples:
  "clean_name [] = []" "clean_name ''a.txt'' = ''a.txt''" "clean_name ''b'' = ''b''"
  "clean_name ''dir/file'' = ''dir/file''" "clean_name ''b.txt'' = ''b.txt''"
  by (simp_all add: clean_name_def trim_slashes_def path_Clean_def)

lemma action_kinds:
  "DeleteAction \<noteq> CreateAction" "UpdateAction \<noteq> CreateAction" "MoveAction \<noteq> CreateAction"
  "MoveAction \<noteq> UpdateAction" "''RENAME'' \<notin> {CreateAction, UpdateAction, MoveAction, DeleteAction}"
  by (simp_all add: DeleteAction_def CreateAction_def UpdateAction_def MoveAction_def)

theorem unknown_action_ignored_witness:
  "''RENAME'' \<noteq> CreateAction \<and> ''RENAME'' \<noteq> UpdateAction \<and> ''RENAME'' \<noteq> MoveAction \<and>
   ''RENAME'' \<noteq> DeleteAction \<and>
   CleanUploadFileName service_main ''a.txt'' = ''a.txt'' \<and>
   processAction service_main fresh_repo (action_of ''RENAME'' ''a.txt'' ''x'' [])
     (Some commit_main) = (None, fresh_repo)"
proof -
  have h: "Action (action_of ''RENAME'' ''a.txt'' ''x'' [])
      \<notin> {CreateAction, UpdateAction, MoveAction, DeleteAction}"
    "CleanUploadFileName service_main (Path (action_of ''RENAME'' ''a.txt'' ''x'' [])) \<noteq> []"
    "CleanUploadFileName service_main ''a.txt'' = ''a.txt''"
    using action_kinds(5) by (simp_all add: action_of_def service_main_def clean_name_samples)
  show ?thesis
    using h action_kinds(5) unknown_action_ignored[OF h(1) h(2), of fresh_repo "Some commit_main"]
    by simp
qed


theorem create_below_file_conflicts_witness:
  "Split_slash (CleanUploadFileName service_main ''dir/file'') = [''dir'', ''file''] \<and>
   treeNode service_main (SHA_String (CommitSHA commit_main)) ''dir''
     = Inr \<lparr>Mode = TreeNodeModeFile, NodeSHA = sha_01\<rparr> \<and>
   \<not> IsDir \<lparr>Mode = TreeNodeModeFile, NodeSHA = sha_01\<rparr> \<and>
   (\<exists>r'. processAction service_main fresh_repo (action_of CreateAction ''dir/file'' ''x'' [])
            (Some commit_main) =
      (Some (Conflict
         ''a file already exists where you're trying to create a subdirectory [path: %s]''
         [''dir'']), r') \<and> index r' = index fresh_repo)"
proof -
  have p: "prefixPath [''dir'', ''file''] 0 = ''dir''"
    by (simp add: prefixPath_def path_Join_def path_Clean_def)
  have h: "Action (action_of CreateAction ''dir/file'' ''x'' []) = CreateAction"
    "Split_slash (CleanUploadFileName service_main (Path (action_of CreateAction ''dir/file'' ''x'' [])))
       = [''dir'', ''file'']"
    "0 < length [''dir'', ''file''] - 1"
    "\<forall>j<0. \<exists>e. treeNode service_main (SHA_String (CommitSHA commit_main))
        (prefixPath [''dir'', ''file''] j) = Inr e \<and> IsDir e"
    "treeNode service_main (SHA_String (CommitSHA commit_main)) (prefixPath [''dir'', ''file''] 0)
       = Inr \<lparr>Mode = TreeNodeModeFile, NodeSHA = sha_01\<rparr>"
    "\<not> IsDir \<lparr>Mode = TreeNodeModeFile, NodeSHA = sha_01\<rparr>"
    by (simp_all add: action_of_def service_main_def clean_name_samples p tree_main_def IsDir_def)
  show ?thesis
    using h(2,5,6) create_below_file_conflicts[OF h, of fresh_repo]
    by (simp add: p action_of_def)
qed



text \<open>
  C6 (as stated, refuted). The actions are taken in order: a Create action with an
  invalid path before the Delete action makes the commit fail with \<open>InvalidArgument\<close>,
  not with \<open>PreconditionFailed\<close>.
\<close>

theorem empty_repo_invalid_create_first_counterexample:
  "action_of DeleteAction ''a.txt'' [] [] \<in> set bad_create_then_delete \<and>
   Action (action_of DeleteAction ''a.txt'' [] []) \<noteq> CreateAction \<and>
   newCommitSHA service_main fresh_repo True bad_create_then_delete None sha_None ''t'' ''m'' =
     (Inl (Wrapped ''failed to prepare tree: %w'' [] (InvalidArgument ''invalid path'' [])),
      fresh_repo\<lparr>calls := [CallNewSharedRepo, CallInitAsShared, CallClose]\<rparr>) \<and>
   AsStatus (Wrapped ''failed to prepare tree: %w'' [] (InvalidArgument ''invalid path'' []))
     = StatusInvalidArgument"
  by (simp add: bad_create_then_delete_def action_of_def action_kinds newCommitSHA_def
      NewSharedRepo_def InitAsShared_def Close_def made_def service_main_def fresh_repo_def
      clean_name_samples InvalidArgument_def)

lemma prepare_create_b:
  "fst (prepareTreeEmptyRepo service_main (made CallInitAsShared (made CallNewSharedRepo fresh_repo))
     [action_of CreateAction ''b'' ''x'' []]) = None"
  by (simp add: action_of_def service_main_def clean_name_samples createFile_def
      WriteGitObject_def AddObjectToIndex_def made_def Let_def)

theorem empty_repo_rejects_other_actions_witness:
  "action_of DeleteAction ''a.txt'' [] [] \<in> set create_then_delete \<and>
   Action (action_of DeleteAction ''a.txt'' [] []) \<noteq> CreateAction \<and>
   (\<exists>r'. newCommitSHA service_main fresh_repo True create_then_delete None sha_None ''t'' ''m'' =
      (Inl (Wrapped ''failed to prepare tree: %w'' []
              (PreconditionFailed ''action not allowed on empty repository'' [])), r') \<and>
      CallWriteTree \<notin> set (made_since fresh_repo r'))"
proof -
  have h: "\<exists>a\<in>set create_then_delete. Action a \<noteq> CreateAction"
    by (simp add: create_then_delete_def action_of_def action_kinds)
  have f: "failing service_main CallNewSharedRepo = None"
    "failing service_main CallInitAsShared = None"
    by (simp_all add: service_main_def)
  have d: "create_then_delete =
      [action_of CreateAction ''b'' ''x'' []] @ action_of DeleteAction ''a.txt'' [] [] # []"
    "Action (action_of DeleteAction ''a.txt'' [] []) \<noteq> CreateAction"
    by (simp_all add: create_then_delete_def action_of_def action_kinds)
  from empty_repo_rejects_other_actions[OF h, of service_main fresh_repo None sha_None "''t''" "''m''"]
  obtain err r' where
    run: "newCommitSHA service_main fresh_repo True create_then_delete None sha_None ''t'' ''m''
        = (Inl err, r')"
    and nt: "CallWriteTree \<notin> set (made_since fresh_repo r')"
    and st: "\<forall>before a after.
              create_then_delete = before @ a # after \<and> Action a \<noteq> CreateAction \<and>
              failing service_main CallNewSharedRepo = None \<and>
              failing service_main CallInitAsShared = None \<and>
              fst (prepareTreeEmptyRepo service_main
                     (made CallInitAsShared (made CallNewSharedRepo fresh_repo)) before) = None \<longrightarrow>
              err = Wrapped ''failed to prepare tree: %w'' []
                      (PreconditionFailed ''action not allowed on empty repository'' []) \<and>
              AsStatus err = StatusPreconditionFailed"
    by blast
  from st[rule_format, of "[action_of CreateAction ''b'' ''x'' []]"
      "action_of DeleteAction ''a.txt'' [] []" "[]"] d f prepare_create_b
  have "err = Wrapped ''failed to prepare tree: %w'' []
                      (PreconditionFailed ''action not allowed on empty repository'' [])"
    by simp
  then show ?thesis using run nt d by (auto simp: create_then_delete_def)
qed

end
